theory Spec2Isabelle
  imports Complex_Main
begin

section \<open>JavaScript values used by the trading engine\<close>

text \<open>
  The program is TypeScript. Its \<open>number\<close> type is the IEEE 754 double: \<open>Finite x\<close> is
  the double whose value is the real \<open>x\<close> (\<open>Finite 0\<close> is the positive zero), \<open>NegZero\<close>
  is the negative zero, and the other three are the special values. Every arithmetic
  operation computes the exact real result and rounds it to the nearest double, ties to
  the even significand, with gradual underflow and overflow to infinity.
\<close>

datatype number = NaN | PosInfinity | NegInfinity | NegZero | Finite real

subsection \<open>Rounding to the nearest double\<close>

fun bit_length :: "nat \<Rightarrow> nat" where
  "bit_length n = (if n = 0 then 0 else Suc (bit_length (n div 2)))"

declare bit_length.simps [simp del]

text \<open>For \<open>x > 0\<close>, the integer \<open>e\<close> with \<open>2^e \<le> x < 2^(e+1)\<close>.\<close>

definition exponent_of :: "real \<Rightarrow> int" where
  "exponent_of x =
     (if 1 \<le> x then int (bit_length (nat \<lfloor>x\<rfloor>)) - 1
      else - int (bit_length (nat (\<lceil>1 / x\<rceil> - 1))))"

definition round_half_even :: "real \<Rightarrow> int" where
  "round_half_even r =
     (let f = \<lfloor>r\<rfloor>; d = r - of_int f
      in if d < 1 / 2 then f
         else if 1 / 2 < d then f + 1
         else if even f then f else f + 1)"

text \<open>
  The magnitude \<open>x > 0\<close> rounded to a significand of 53 bits, or to a multiple of
  \<open>2^-1074\<close> below the normal range. The result is \<open>2^1024\<close> where the double
  overflows and \<open>0\<close> where it underflows.
\<close>

definition nearest_double :: "real \<Rightarrow> real" where
  "nearest_double x =
     (let q = max (exponent_of x - 52) (- 1074)
      in of_int (round_half_even (x / 2 powi q)) * 2 powi q)"

definition zero :: "bool \<Rightarrow> number" where
  "zero negative = (if negative then NegZero else Finite 0)"

definition infinity :: "bool \<Rightarrow> number" where
  "infinity negative = (if negative then NegInfinity else PosInfinity)"

text \<open>The double for a sign and an exact magnitude \<open>x \<ge> 0\<close>.\<close>

definition to_number :: "bool \<Rightarrow> real \<Rightarrow> number" where
  "to_number negative x =
     (if x = 0 then zero negative
      else
        (let r = nearest_double x
         in if 2 ^ 1024 \<le> r then infinity negative
            else if r = 0 then zero negative
            else Finite (if negative then - r else r)))"

definition rounded :: "real \<Rightarrow> number" where
  "rounded x = to_number (x < 0) \<bar>x\<bar>"

subsection \<open>Arithmetic and comparison\<close>

fun real_of :: "number \<Rightarrow> real" where
  "real_of (Finite x) = x"
| "real_of a = 0"

fun negative :: "number \<Rightarrow> bool" where
  "negative (Finite x) = (x < 0)"
| "negative NegZero = True"
| "negative NegInfinity = True"
| "negative a = False"

fun is_infinite :: "number \<Rightarrow> bool" where
  "is_infinite PosInfinity = True"
| "is_infinite NegInfinity = True"
| "is_infinite a = False"

fun is_zero :: "number \<Rightarrow> bool" where
  "is_zero (Finite x) = (x = 0)"
| "is_zero NegZero = True"
| "is_zero a = False"

fun num_neg :: "number \<Rightarrow> number" where
  "num_neg (Finite x) = (if x = 0 then NegZero else Finite (- x))"
| "num_neg NegZero = Finite 0"
| "num_neg PosInfinity = NegInfinity"
| "num_neg NegInfinity = PosInfinity"
| "num_neg NaN = NaN"

text \<open>
  A sum that is exactly zero is the positive zero, unless both summands are the negative
  zero.
\<close>

definition num_add :: "number \<Rightarrow> number \<Rightarrow> number" where
  "num_add a b =
     (if a = NaN \<or> b = NaN then NaN
      else if is_infinite a then (if is_infinite b \<and> a \<noteq> b then NaN else a)
      else if is_infinite b then b
      else if real_of a + real_of b = 0 then zero (a = NegZero \<and> b = NegZero)
      else rounded (real_of a + real_of b))"

definition num_sub :: "number \<Rightarrow> number \<Rightarrow> number" where
  "num_sub a b = num_add a (num_neg b)"

definition num_mul :: "number \<Rightarrow> number \<Rightarrow> number" where
  "num_mul a b =
     (if a = NaN \<or> b = NaN then NaN
      else if is_infinite a \<or> is_infinite b then
        (if is_zero a \<or> is_zero b then NaN else infinity (negative a \<noteq> negative b))
      else to_number (negative a \<noteq> negative b) (\<bar>real_of a\<bar> * \<bar>real_of b\<bar>))"

definition num_div :: "number \<Rightarrow> number \<Rightarrow> number" where
  "num_div a b =
     (if a = NaN \<or> b = NaN then NaN
      else if is_infinite a then
        (if is_infinite b then NaN else infinity (negative a \<noteq> negative b))
      else if is_infinite b then zero (negative a \<noteq> negative b)
      else if is_zero b then
        (if is_zero a then NaN else infinity (negative a \<noteq> negative b))
      else to_number (negative a \<noteq> negative b) (\<bar>real_of a\<bar> / \<bar>real_of b\<bar>))"

text \<open>
  The relational operators: every comparison with \<open>NaN\<close> is false, and the two zeros
  are equal.
\<close>

definition num_le :: "number \<Rightarrow> number \<Rightarrow> bool" where
  "num_le a b =
     (if a = NaN \<or> b = NaN then False
      else if a = NegInfinity \<or> b = PosInfinity then True
      else if a = PosInfinity \<or> b = NegInfinity then False
      else real_of a \<le> real_of b)"

definition num_lt :: "number \<Rightarrow> number \<Rightarrow> bool" where
  "num_lt a b =
     (if a = NaN \<or> b = NaN then False
      else if a = PosInfinity \<or> b = NegInfinity then False
      else if a = NegInfinity \<or> b = PosInfinity then True
      else real_of a < real_of b)"

definition num_ge :: "number \<Rightarrow> number \<Rightarrow> bool" where
  "num_ge a b = num_le b a"

fun Math_floor :: "number \<Rightarrow> number" where
  "Math_floor (Finite x) = Finite (of_int \<lfloor>x\<rfloor>)"
| "Math_floor a = a"

text \<open>\<open>x || 0\<close> on an optional number: \<open>undefined\<close>, both zeros and \<open>NaN\<close> are falsy.\<close>

fun or_zero :: "number option \<Rightarrow> number" where
  "or_zero None = Finite 0"
| "or_zero (Some NaN) = Finite 0"
| "or_zero (Some NegZero) = Finite 0"
| "or_zero (Some a) = a"

subsection \<open>Reading numbers from strings\<close>

definition is_space :: "char \<Rightarrow> bool" where
  "is_space c = (c \<in> set [CHR '' '', CHR 0x09, CHR 0x0A, CHR 0x0B, CHR 0x0C, CHR 0x0D])"

definition digit_of :: "char \<Rightarrow> nat option" where
  "digit_of c =
     (let n = (of_char c :: nat) in
      if 48 \<le> n \<and> n \<le> 57 then Some (n - 48)
      else if 97 \<le> n \<and> n \<le> 102 then Some (n - 87)
      else if 65 \<le> n \<and> n \<le> 70 then Some (n - 55)
      else None)"

fun take_digits :: "nat \<Rightarrow> string \<Rightarrow> nat list" where
  "take_digits radix [] = []"
| "take_digits radix (c # cs) =
     (case digit_of c of
        None \<Rightarrow> []
      | Some d \<Rightarrow> if d < radix then d # take_digits radix cs else [])"

definition digits_value :: "nat \<Rightarrow> nat list \<Rightarrow> nat" where
  "digits_value radix ds = foldl (\<lambda>acc d. acc * radix + d) 0 ds"

fun strip_sign :: "string \<Rightarrow> bool \<times> string" where
  "strip_sign (c # cs) =
     (if c = CHR ''-'' then (True, cs) else if c = CHR ''+'' then (False, cs) else (False, c # cs))"
| "strip_sign [] = (False, [])"

fun strip_radix :: "string \<Rightarrow> nat \<times> string" where
  "strip_radix (a # b # cs) =
     (if a = CHR ''0'' \<and> (b = CHR ''x'' \<or> b = CHR ''X'') then (16, cs) else (10, a # b # cs))"
| "strip_radix s = (10, s)"

text \<open>
  \<open>parseInt(s)\<close> with no radix argument: leading white space (the ASCII kinds) is
  skipped, a sign and a \<open>0x\<close> prefix are read, then the longest run of digits; no digit
  gives \<open>NaN\<close>. The integer read is rounded to a double.
\<close>

definition parseInt :: "string \<Rightarrow> number" where
  "parseInt str =
     (let (negative, s1) = strip_sign (dropWhile is_space str);
          (radix, s2) = strip_radix s1;
          ds = take_digits radix s2
      in if ds = [] then NaN
         else to_number negative (real (digits_value radix ds)))"

section \<open>The quote aggregator and the opportunity evaluator (SolanaService)\<close>

text \<open>
  \<open>JupiterQuoteResponse\<close> of \<open>shared/types.ts\<close>, with the fields the service reads;
  amounts are decimal strings in the smallest unit of the asset.
\<close>

record JupiterQuoteResponse =
  inputMint :: string
  inAmount :: string
  outputMint :: string
  outAmount :: string

definition DEFAULT_SLIPPAGE_BPS :: nat where
  "DEFAULT_SLIPPAGE_BPS = 50"

text \<open>
  The HTTP endpoint \<open>/quote\<close> as the service sees it at one call: input mint, output
  mint, amount in smallest units and slippage give the response body, or \<open>None\<close> when
  the request throws (time-out, no route, network error).
\<close>

type_synonym quote_endpoint = "string \<Rightarrow> string \<Rightarrow> number \<Rightarrow> nat \<Rightarrow> JupiterQuoteResponse option"

definition getQuote :: "quote_endpoint \<Rightarrow> string \<Rightarrow> string \<Rightarrow> number \<Rightarrow> JupiterQuoteResponse option" where
  "getQuote http inMint outMint amount =
     http inMint outMint (Math_floor (num_mul amount (Finite 1000000000))) DEFAULT_SLIPPAGE_BPS"

record simulation =
  profitOpportunity :: number
  profitPercentage :: number
  priceA :: number
  priceB :: number

text \<open>
  \<open>simulateArbitrageOpportunity\<close>: the two calls of \<open>getQuote\<close> reach the endpoint at
  different moments, so each call has its own endpoint behaviour.
\<close>

definition simulateArbitrageOpportunity ::
    "quote_endpoint \<Rightarrow> quote_endpoint \<Rightarrow> string \<Rightarrow> string \<Rightarrow> number \<Rightarrow> simulation option" where
  "simulateArbitrageOpportunity http1 http2 tokenA tokenB amount =
     (case getQuote http1 tokenA tokenB amount of
        None \<Rightarrow> None
      | Some quoteAtoB \<Rightarrow>
          (case getQuote http2 tokenB tokenA
                  (num_div (parseInt (outAmount quoteAtoB)) (Finite 1000000000)) of
             None \<Rightarrow> None
           | Some quoteBtoA \<Rightarrow>
               (let inputAmount = amount;
                    outputAmount = num_div (parseInt (outAmount quoteBtoA)) (Finite 1000000000);
                    profit = num_sub outputAmount inputAmount;
                    profitPercentage = num_mul (num_div profit inputAmount) (Finite 100);
                    priceA = num_div (parseInt (outAmount quoteAtoB))
                               (num_div (parseInt (inAmount quoteAtoB)) (Finite 1000000000));
                    priceB = num_div (parseInt (outAmount quoteBtoA))
                               (num_div (parseInt (inAmount quoteBtoA)) (Finite 1000000000))
                in Some \<lparr>profitOpportunity = profit, profitPercentage = profitPercentage,
                          priceA = priceA, priceB = priceB\<rparr>)))"

section \<open>Trade execution in the SolanaService\<close>

text \<open>
  \<open>Date.now()\<close> is a natural number of milliseconds; appended to a string it is written
  in decimal.
\<close>

definition digit_char :: "nat \<Rightarrow> char" where
  "digit_char d = ''0123456789'' ! d"

fun decimal :: "nat \<Rightarrow> string" where
  "decimal n =
     (if n < 10 then [digit_char n]
      else decimal (n div 10) @ [digit_char (n mod 10)])"

declare decimal.simps [simp del]

record JupiterSwapResponse =
  swapTransaction :: string

text \<open>
  The endpoint \<open>/swap\<close> at one call (quote and user public key give the response body,
  \<open>None\<close> when the request throws), and the chain client at one call of
  \<open>executeSwap\<close>: the serialized transaction and the signing wallet give the confirmed
  signature, or \<open>None\<close> when deserializing, sending or confirming fails.
\<close>

type_synonym swap_endpoint = "JupiterQuoteResponse \<Rightarrow> string \<Rightarrow> JupiterSwapResponse option"

type_synonym chain_client = "string \<Rightarrow> string \<Rightarrow> string option"

text \<open>An awaited call either rejects with an \<open>Error\<close>, kept by its message, or resolves.\<close>

datatype 'a outcome = Throws string | Returns 'a

definition getSwapTransaction ::
    "swap_endpoint \<Rightarrow> string option \<Rightarrow> JupiterQuoteResponse \<Rightarrow> JupiterSwapResponse option outcome" where
  "getSwapTransaction http wallet quoteResponse =
     (case wallet of
        None \<Rightarrow> Throws ''Wallet not initialized''
      | Some publicKey \<Rightarrow> Returns (http quoteResponse publicKey))"

definition executeSwap :: "chain_client \<Rightarrow> string option \<Rightarrow> string \<Rightarrow> string option outcome" where
  "executeSwap connection wallet swapTx =
     (case wallet of
        None \<Rightarrow> Throws ''Wallet not initialized''
      | Some publicKey \<Rightarrow> Returns (connection swapTx publicKey))"

text \<open>
  What the outside world answers during one call of \<open>executeArbitrage\<close>: the quote
  endpoint at its first and second call, the swap endpoint and the chain client for each
  leg, and the clock read for the mock signature.
\<close>

record market =
  quoteAtoB_http :: quote_endpoint
  quoteBtoA_http :: quote_endpoint
  swapAtoB_http :: swap_endpoint
  swapBtoA_http :: swap_endpoint
  chainAtoB :: chain_client
  chainBtoA :: chain_client
  now :: nat

record ExecutionResult =
  success :: bool
  txSignature :: "string option"
  profit :: "number option"
  error :: "string option"

definition failure :: "string \<Rightarrow> ExecutionResult" where
  "failure message = \<lparr>success = False, txSignature = None, profit = None, error = Some message\<rparr>"

text \<open>
  \<open>executeArbitrage\<close>. The second component of the result lists the serialized
  transactions that were handed to the chain client, in order. The one-second delay of
  mock mode has no effect on the result and is left out. A \<open>Throws\<close> of a helper is
  what the enclosing \<open>catch\<close> turns into a failure result with the error's message.
\<close>

definition executeArbitrage ::
    "market \<Rightarrow> string option \<Rightarrow> string \<Rightarrow> string \<Rightarrow> number \<Rightarrow> bool \<Rightarrow> ExecutionResult \<times> string list" where
  "executeArbitrage world wallet mintA mintB amount mock =
     (if mock then
        (case simulateArbitrageOpportunity (quoteAtoB_http world) (quoteBtoA_http world)
                mintA mintB amount of
           None \<Rightarrow> (failure ''Failed to simulate trade'', [])
         | Some sim \<Rightarrow>
             (\<lparr>success = True, txSignature = Some (''mock_tx_'' @ decimal (now world)),
               profit = Some (profitOpportunity sim), error = None\<rparr>, []))
      else if wallet = None then (failure ''Wallet not initialized'', [])
      else
        (case getQuote (quoteAtoB_http world) mintA mintB amount of
           None \<Rightarrow> (failure ''Failed to get quote A->B'', [])
         | Some quoteAtoB \<Rightarrow>
         (case getSwapTransaction (swapAtoB_http world) wallet quoteAtoB of
           Throws message \<Rightarrow> (failure message, [])
         | Returns None \<Rightarrow> (failure ''Failed to get swap transaction A->B'', [])
         | Returns (Some swapTxAtoB) \<Rightarrow>
         (case executeSwap (chainAtoB world) wallet (swapTransaction swapTxAtoB) of
           Throws message \<Rightarrow> (failure message, [])
         | Returns None \<Rightarrow>
             (failure ''Failed to execute swap A->B'', [swapTransaction swapTxAtoB])
         | Returns (Some txSignature1) \<Rightarrow>
         (case getQuote (quoteBtoA_http world) mintB mintA
                 (num_div (parseInt (outAmount quoteAtoB)) (Finite 1000000000)) of
           None \<Rightarrow> (failure ''Failed to get quote B->A'', [swapTransaction swapTxAtoB])
         | Some quoteBtoA \<Rightarrow>
         (case getSwapTransaction (swapBtoA_http world) wallet quoteBtoA of
           Throws message \<Rightarrow> (failure message, [swapTransaction swapTxAtoB])
         | Returns None \<Rightarrow>
             (failure ''Failed to get swap transaction B->A'', [swapTransaction swapTxAtoB])
         | Returns (Some swapTxBtoA) \<Rightarrow>
         (case executeSwap (chainBtoA world) wallet (swapTransaction swapTxBtoA) of
           Throws message \<Rightarrow> (failure message, [swapTransaction swapTxAtoB])
         | Returns None \<Rightarrow>
             (failure ''Failed to execute swap B->A'',
              [swapTransaction swapTxAtoB, swapTransaction swapTxBtoA])
         | Returns (Some txSignature2) \<Rightarrow>
             (let finalAmount = num_div (parseInt (outAmount quoteBtoA)) (Finite 1000000000);
                  gain = num_sub finalAmount amount
              in (\<lparr>success = True, txSignature = Some txSignature2, profit = Some gain,
                    error = None\<rparr>,
                  [swapTransaction swapTxAtoB, swapTransaction swapTxBtoA])))))))))"

section \<open>Rows of the schema\<close>

text \<open>
  A \<open>decimal\<close> column is a string in TypeScript. The engine fills it either with given
  text or with \<open>n.toString()\<close> of a number \<open>n\<close>; the second kind is kept as the number
  it was printed from, since \<open>parseFloat\<close> of that text is the number again.
\<close>

datatype decimal_text = Text string | NumberText number

definition is_digit :: "char \<Rightarrow> bool" where
  "is_digit c = (let n = (of_char c :: nat) in 48 \<le> n \<and> n \<le> 57)"

definition decimal_value :: "string \<Rightarrow> nat" where
  "decimal_value ds = foldl (\<lambda>acc c. acc * 10 + (of_char c - 48)) 0 ds"

definition read_exponent :: "string \<Rightarrow> int" where
  "read_exponent s =
     (case s of
        [] \<Rightarrow> 0
      | c # cs \<Rightarrow>
          if c = CHR ''e'' \<or> c = CHR ''E'' then
            (let (negative, r) = strip_sign cs; ds = takeWhile is_digit r
             in if ds = [] then 0
                else if negative then - int (decimal_value ds) else int (decimal_value ds))
          else 0)"

definition scale10 :: "real \<Rightarrow> int \<Rightarrow> real" where
  "scale10 m e = (if 0 \<le> e then m * 10 ^ nat e else m / 10 ^ nat (- e))"

text \<open>
  \<open>parseFloat\<close> on text: white space, a sign, then \<open>Infinity\<close> or the longest decimal
  literal (digits, an optional fraction, an optional exponent); \<open>NaN\<close> when there is none.
  The decimal value read is rounded to a double.
\<close>

definition parseFloat_string :: "string \<Rightarrow> number" where
  "parseFloat_string str =
     (let (negative, s1) = strip_sign (dropWhile is_space str)
      in if take 8 s1 = ''Infinity'' then (if negative then NegInfinity else PosInfinity)
         else
           (let ip = takeWhile is_digit s1;
                r1 = dropWhile is_digit s1;
                fp = (case r1 of
                        [] \<Rightarrow> []
                      | c # cs \<Rightarrow> if c = CHR ''.'' then takeWhile is_digit cs else []);
                r2 = (case r1 of
                        [] \<Rightarrow> []
                      | c # cs \<Rightarrow> if c = CHR ''.'' then dropWhile is_digit cs else r1);
                m = real (decimal_value ip) + real (decimal_value fp) / 10 ^ length fp;
                v = scale10 m (read_exponent r2)
            in if ip = [] \<and> fp = [] then NaN
               else to_number negative v))"

fun parseFloat :: "decimal_text \<Rightarrow> number" where
  "parseFloat (Text s) = parseFloat_string s"
| "parseFloat (NumberText n) = n"

text \<open>
  An optional key of an object: absent, present with the value \<open>undefined\<close>, or present
  with a value. The spread \<open>{...existing, ...updates}\<close> keeps the existing entry exactly
  when the key is absent from \<open>updates\<close>.
\<close>

datatype 'a property = Absent | Undefined | Value 'a

fun from_optional :: "'a option \<Rightarrow> 'a property" where
  "from_optional None = Undefined"
| "from_optional (Some v) = Value v"

fun spread_property :: "'a property \<Rightarrow> 'a property \<Rightarrow> 'a property" where
  "spread_property existing Absent = existing"
| "spread_property existing present = present"

text \<open>
  \<open>BotConfig\<close>, \<open>NewTrade\<close> and \<open>NewArbitrageOpportunity\<close> of the schema. The columns
  \<open>createdAt\<close> and \<open>updatedAt\<close> of a configuration are never read by the engine and are
  left out; times are milliseconds.
\<close>

record BotConfig =
  id' :: string
  userId :: string
  tokenA :: string
  tokenB :: string
  profitThreshold :: decimal_text
  maxTradeAmount :: decimal_text
  scanInterval :: int
  isActive :: bool
  walletAddress :: "string option"
  privateKey :: "string option"
  mockMode :: bool

record NewTrade =
  id' :: string
  userId :: string
  configId :: string
  tokenA :: string
  tokenB :: string
  amountIn :: decimal_text
  amountOut :: decimal_text
  profit :: decimal_text
  profitPercentage :: decimal_text
  txSignature :: "string property"
  status :: string
  errorMessage :: "string property"
  executedAt :: nat
  isMock :: bool

record NewArbitrageOpportunity =
  id' :: string
  userId :: string
  tokenA :: string
  tokenB :: string
  priceA :: decimal_text
  priceB :: decimal_text
  profitOpportunity :: decimal_text
  profitPercentage :: decimal_text
  amountRequired :: decimal_text
  dexA :: string
  dexB :: string
  detectedAt :: nat
  wasExecuted :: bool
  executedTradeId :: "string property"

text \<open>
  The one object any caller passes to \<open>updateOpportunity\<close> has the keys \<open>wasExecuted\<close>
  and \<open>executedTradeId\<close>; the other keys of \<open>Partial<NewArbitrageOpportunity>\<close> are
  absent from it.
\<close>

record OpportunityUpdates =
  set_wasExecuted :: "bool property"
  set_executedTradeId :: "string property"

section \<open>Messages and collaborator calls\<close>

text \<open>
  The messages of \<open>shared/types.ts\<close>. A status message holds \<open>isRunning\<close>, \<open>configId\<close>,
  \<open>lastScanTime\<close>, \<open>errorMessage\<close> and the publish timestamp. The data of an opportunity
  or trade message is computed field by field from a row (numbers by \<open>parseFloat\<close>, dates
  by \<open>getTime\<close>); the message holds that row and the publish timestamp.
\<close>

datatype WebSocketMessage =
    BotStatusMessage bool string nat "string option" nat
  | OpportunityMessage NewArbitrageOpportunity nat
  | TradeMessage NewTrade nat

text \<open>The calls the engine makes on its three collaborators, as they are logged in order.\<close>

datatype call =
    SimulateArbitrageOpportunity string string number
  | ExecuteArbitrage string string number bool
  | CreateOpportunity NewArbitrageOpportunity
  | UpdateOpportunity string OpportunityUpdates
  | CreateTrade NewTrade
  | UpdateTrade string NewTrade
  | Broadcast WebSocketMessage

section \<open>The engine state\<close>

text \<open>
  The private fields of \<open>ArbitrageBot\<close> (\<open>scanInterval\<close> is the armed timer, kept by its
  period in milliseconds), the wallet of the \<open>SolanaService\<close>, the two in-memory tables
  of the \<open>StorageService\<close> that the engine writes (the service is taken with no database
  connected, its fallback path), the log of collaborator calls, and the clock that
  \<open>Date.now()\<close> reads.
\<close>

record engine =
  isRunning :: bool
  scanInterval :: "int option"
  currentConfig :: "BotConfig option"
  lastScanTime :: nat
  errorCount :: nat
  wallet :: "string option"
  trades :: "string \<Rightarrow> NewTrade option"
  opportunities :: "string \<Rightarrow> NewArbitrageOpportunity option"
  calls :: "call list"
  clock :: nat

definition MAX_ERRORS :: nat where
  "MAX_ERRORS = 5"

definition initial :: engine where
  "initial = \<lparr>isRunning = False, scanInterval = None, currentConfig = None, lastScanTime = 0,
              errorCount = 0, wallet = None, trades = (\<lambda>k. None), opportunities = (\<lambda>k. None),
              calls = [], clock = 0\<rparr>"

definition logged :: "call \<Rightarrow> engine \<Rightarrow> engine" where
  "logged c s = s\<lparr>calls := calls s @ [c]\<rparr>"

subsection \<open>StorageService, memory fallback\<close>

definition createTrade :: "NewTrade \<Rightarrow> engine \<Rightarrow> engine" where
  "createTrade trade s =
     (logged (CreateTrade trade) s)\<lparr>trades := (trades s)(NewTrade.id' trade \<mapsto> trade)\<rparr>"

text \<open>
  \<open>{...existing, ...updates}\<close> for the \<open>updates\<close> the engine passes, which are complete
  \<open>NewTrade\<close> objects: every required key is overwritten, the two optional keys only when
  present.
\<close>

definition spread_trade :: "NewTrade \<Rightarrow> NewTrade \<Rightarrow> NewTrade" where
  "spread_trade existing updates =
     updates\<lparr>txSignature := spread_property (NewTrade.txSignature existing) (NewTrade.txSignature updates),
             errorMessage := spread_property (errorMessage existing) (errorMessage updates)\<rparr>"

definition updateTrade :: "string \<Rightarrow> NewTrade \<Rightarrow> engine \<Rightarrow> engine" where
  "updateTrade ident updates s =
     (case trades s ident of
        None \<Rightarrow> logged (UpdateTrade ident updates) s
      | Some existing \<Rightarrow>
          (logged (UpdateTrade ident updates) s)
            \<lparr>trades := (trades s)(ident \<mapsto> spread_trade existing updates)\<rparr>)"

definition createOpportunity :: "NewArbitrageOpportunity \<Rightarrow> engine \<Rightarrow> engine" where
  "createOpportunity opportunity s =
     (logged (CreateOpportunity opportunity) s)
       \<lparr>opportunities := (opportunities s)(NewArbitrageOpportunity.id' opportunity \<mapsto> opportunity)\<rparr>"

definition spread_opportunity :: "NewArbitrageOpportunity \<Rightarrow> OpportunityUpdates \<Rightarrow> NewArbitrageOpportunity" where
  "spread_opportunity existing updates =
     existing\<lparr>wasExecuted := (case set_wasExecuted updates of
                                 Value b \<Rightarrow> b
                               | Undefined \<Rightarrow> False
                               | Absent \<Rightarrow> wasExecuted existing),
              executedTradeId := spread_property (executedTradeId existing) (set_executedTradeId updates)\<rparr>"

definition updateOpportunity :: "string \<Rightarrow> OpportunityUpdates \<Rightarrow> engine \<Rightarrow> engine" where
  "updateOpportunity ident updates s =
     (case opportunities s ident of
        None \<Rightarrow> logged (UpdateOpportunity ident updates) s
      | Some existing \<Rightarrow>
          (logged (UpdateOpportunity ident updates) s)
            \<lparr>opportunities := (opportunities s)(ident \<mapsto> spread_opportunity existing updates)\<rparr>)"

section \<open>The ArbitrageBot\<close>

text \<open>
  \<open>WebSocketService.broadcast\<close> catches every error of its transport; for the engine it
  is the log entry. The helpers below build the three kinds of message.
\<close>

definition broadcast :: "WebSocketMessage \<Rightarrow> engine \<Rightarrow> engine" where
  "broadcast message s = logged (Broadcast message) s"

definition broadcastBotStatus :: "string option \<Rightarrow> engine \<Rightarrow> engine" where
  "broadcastBotStatus errorText s =
     broadcast (BotStatusMessage (isRunning s)
                  (case currentConfig s of None \<Rightarrow> '''' | Some c \<Rightarrow> BotConfig.id' c)
                  (lastScanTime s) errorText (clock s)) s"

definition broadcastOpportunity :: "NewArbitrageOpportunity \<Rightarrow> engine \<Rightarrow> engine" where
  "broadcastOpportunity opportunity s = broadcast (OpportunityMessage opportunity (clock s)) s"

definition broadcastTrade :: "NewTrade \<Rightarrow> engine \<Rightarrow> engine" where
  "broadcastTrade trade s = broadcast (TradeMessage trade (clock s)) s"

subsection \<open>Stop\<close>

definition stop :: "engine \<Rightarrow> engine" where
  "stop s =
     (if \<not> isRunning s then s
      else
        (let s1 = s\<lparr>isRunning := False\<rparr>;
             s2 = (case engine.scanInterval s1 of
                     None \<Rightarrow> s1
                   | Some timer \<Rightarrow> s1\<lparr>engine.scanInterval := None\<rparr>)
         in broadcastBotStatus None s2))"

subsection \<open>The scan tick\<close>

text \<open>
  What one tick receives from outside: how the awaited evaluator call settles and the
  clock at that moment, the two identifiers \<open>nanoid()\<close> draws, and how the awaited
  executor call settles and the clock at that moment. The engine receives its
  collaborators through its constructor and is written against their interfaces, so both
  calls may reject. A tick is one step of the model: nothing else runs between its
  \<open>await\<close>s.
\<close>

record tick =
  evaluation :: "simulation option outcome"
  evaluatedAt :: nat
  opportunityId :: string
  tradeId :: string
  execution :: "ExecutionResult outcome"
  settledAt :: nat

definition opportunityRow :: "string \<Rightarrow> simulation \<Rightarrow> BotConfig \<Rightarrow> nat \<Rightarrow> NewArbitrageOpportunity" where
  "opportunityRow ident opportunity config today =
     \<lparr>NewArbitrageOpportunity.id' = ident,
      userId = BotConfig.userId config,
      tokenA = BotConfig.tokenA config,
      tokenB = BotConfig.tokenB config,
      priceA = NumberText (simulation.priceA opportunity),
      priceB = NumberText (simulation.priceB opportunity),
      profitOpportunity = NumberText (simulation.profitOpportunity opportunity),
      profitPercentage = NumberText (simulation.profitPercentage opportunity),
      amountRequired = maxTradeAmount config,
      dexA = ''Jupiter'',
      dexB = ''Jupiter'',
      detectedAt = today,
      wasExecuted = False,
      executedTradeId = Absent\<rparr>"

definition recordOpportunity ::
    "tick \<Rightarrow> simulation \<Rightarrow> BotConfig \<Rightarrow> engine \<Rightarrow> NewArbitrageOpportunity \<times> engine" where
  "recordOpportunity env opportunity config s =
     (let row = opportunityRow (opportunityId env) opportunity config (clock s)
      in (row, createOpportunity row s))"

text \<open>
  The four objects \<open>executeTrade\<close> builds: the pending \<open>tradeRecord\<close>, and the
  \<open>updatedTrade\<close>, \<open>failedTrade\<close> and \<open>errorTrade\<close> that spread it.
\<close>

definition tradeRecord :: "string \<Rightarrow> BotConfig \<Rightarrow> nat \<Rightarrow> NewTrade" where
  "tradeRecord ident config today =
     \<lparr>NewTrade.id' = ident,
      userId = BotConfig.userId config,
      configId = BotConfig.id' config,
      tokenA = BotConfig.tokenA config,
      tokenB = BotConfig.tokenB config,
      amountIn = maxTradeAmount config,
      amountOut = Text ''0'',
      profit = Text ''0'',
      profitPercentage = Text ''0'',
      txSignature = Absent,
      status = ''pending'',
      errorMessage = Absent,
      executedAt = today,
      isMock = mockMode config\<rparr>"

definition updatedTrade :: "NewTrade \<Rightarrow> ExecutionResult \<Rightarrow> NewTrade" where
  "updatedTrade pending result =
     pending
       \<lparr>amountOut := NumberText (num_add (parseFloat (amountIn pending))
                                  (or_zero (ExecutionResult.profit result))),
        NewTrade.profit := NumberText (or_zero (ExecutionResult.profit result)),
        NewTrade.profitPercentage := NumberText
           (num_mul (num_div (or_zero (ExecutionResult.profit result))
                       (parseFloat (amountIn pending))) (Finite 100)),
        NewTrade.txSignature := from_optional (ExecutionResult.txSignature result),
        status := ''completed''\<rparr>"

definition failedTrade :: "NewTrade \<Rightarrow> ExecutionResult \<Rightarrow> NewTrade" where
  "failedTrade pending result =
     pending\<lparr>status := ''failed'', errorMessage := from_optional (error result)\<rparr>"

definition errorTrade :: "NewTrade \<Rightarrow> string \<Rightarrow> NewTrade" where
  "errorTrade pending message =
     pending\<lparr>status := ''failed'', errorMessage := Value message\<rparr>"

text \<open>
  \<open>executeTrade\<close>. The three branches after the awaited executor call are its success
  branch, its \<open>else\<close> branch and its \<open>catch\<close> block.
\<close>

definition executeTrade :: "tick \<Rightarrow> NewArbitrageOpportunity \<Rightarrow> engine \<Rightarrow> engine" where
  "executeTrade env opportunity s =
     (case currentConfig s of
        None \<Rightarrow> s
      | Some config \<Rightarrow>
          (let pending = tradeRecord (tradeId env) config (clock s);
               s1 = createTrade pending s;
               s2 = broadcastTrade pending s1;
               s3 = (logged (ExecuteArbitrage (BotConfig.tokenA config) (BotConfig.tokenB config)
                               (parseFloat (maxTradeAmount config)) (mockMode config)) s2)
                      \<lparr>clock := settledAt env\<rparr>
           in case execution env of
                Returns result \<Rightarrow>
                  if success result then
                    (let s4 = updateTrade (tradeId env) (updatedTrade pending result) s3;
                         s5 = updateOpportunity (NewArbitrageOpportunity.id' opportunity)
                                \<lparr>set_wasExecuted = Value True,
                                 set_executedTradeId = Value (tradeId env)\<rparr> s4
                     in broadcastTrade (updatedTrade pending result) s5)
                  else
                    (let s4 = updateTrade (tradeId env) (failedTrade pending result) s3
                     in broadcastTrade (failedTrade pending result) s4)
              | Throws message \<Rightarrow>
                  (let s4 = updateTrade (tradeId env) (errorTrade pending message) s3
                   in broadcastTrade (errorTrade pending message) s4)))"

text \<open>The \<open>catch\<close> block of \<open>scanForOpportunities\<close>.\<close>

definition scan_catch :: "engine \<Rightarrow> engine" where
  "scan_catch s =
     (let s1 = s\<lparr>errorCount := errorCount s + 1\<rparr>
      in if MAX_ERRORS \<le> errorCount s1
         then broadcastBotStatus (Some ''Too many errors occurred'') (stop s1)
         else s1)"

text \<open>
  The synchronous start of a scan, up to its first \<open>await\<close>: the guard, the time stamp and
  the call of the evaluator.
\<close>

definition scan_begin :: "engine \<Rightarrow> engine" where
  "scan_begin s =
     (if \<not> isRunning s then s
      else case currentConfig s of
             None \<Rightarrow> s
           | Some config \<Rightarrow>
               logged (SimulateArbitrageOpportunity (BotConfig.tokenA config) (BotConfig.tokenB config)
                         (parseFloat (maxTradeAmount config)))
                 (s\<lparr>lastScanTime := clock s\<rparr>))"

text \<open>The rest of the \<open>try\<close> block, from the moment the evaluator call settles.\<close>

definition scan_settle :: "tick \<Rightarrow> engine \<Rightarrow> engine" where
  "scan_settle env s0 =
     (let s = s0\<lparr>clock := evaluatedAt env\<rparr>
      in case evaluation env of
           Throws message \<Rightarrow> scan_catch s
         | Returns None \<Rightarrow> s
         | Returns (Some opportunity) \<Rightarrow>
             (case currentConfig s of
                None \<Rightarrow> scan_catch s
              | Some config \<Rightarrow>
                  if num_ge (simulation.profitPercentage opportunity)
                       (parseFloat (profitThreshold config))
                  then
                    (let (opportunityRecord, s1) = recordOpportunity env opportunity config s;
                         s2 = broadcastOpportunity opportunityRecord s1;
                         s3 = executeTrade env opportunityRecord s2
                     in s3\<lparr>errorCount := 0\<rparr>)
                  else s\<lparr>errorCount := 0\<rparr>))"

definition scanForOpportunities :: "tick \<Rightarrow> engine \<Rightarrow> engine" where
  "scanForOpportunities env s =
     (if \<not> isRunning s \<or> currentConfig s = None then s
      else scan_settle env (scan_begin s))"

subsection \<open>Start\<close>

text \<open>
  \<open>setWallet\<close> of the SolanaService: \<open>keypair\<close> stands for the decoding of the key text
  by the libraries (base58 or a bracketed array, then \<open>Keypair.fromSecretKey\<close>), which
  gives the wallet, or \<open>None\<close> when it throws.
\<close>

definition setWallet :: "(string \<Rightarrow> string option) \<Rightarrow> string \<Rightarrow> engine \<Rightarrow> bool \<times> engine" where
  "setWallet keypair privateKeyString s =
     (case keypair privateKeyString of
        None \<Rightarrow> (False, s)
      | Some w \<Rightarrow> (True, s\<lparr>wallet := Some w\<rparr>))"

text \<open>
  \<open>startScanning\<close> calls \<open>scanForOpportunities\<close> without awaiting it, so only the
  synchronous start of that scan runs before the timer is armed; the scan settles later.
\<close>

definition startScanning :: "engine \<Rightarrow> engine" where
  "startScanning s =
     (case currentConfig s of
        None \<Rightarrow> s
      | Some config \<Rightarrow>
          (let scanIntervalMs = BotConfig.scanInterval config * 1000;
               s1 = scan_begin s
           in s1\<lparr>engine.scanInterval := Some scanIntervalMs\<rparr>))"

definition start_engine :: "engine \<Rightarrow> bool \<times> engine" where
  "start_engine s =
     (let s1 = s\<lparr>isRunning := True\<rparr>;
          s2 = startScanning s1
      in (True, broadcastBotStatus None s2))"

definition start :: "(string \<Rightarrow> string option) \<Rightarrow> BotConfig \<Rightarrow> engine \<Rightarrow> bool \<times> engine" where
  "start keypair config s =
     (if isRunning s then (False, s)
      else
        (let s1 = s\<lparr>currentConfig := Some config, errorCount := 0\<rparr>
         in case privateKey config of
              None \<Rightarrow> start_engine s1
            | Some key \<Rightarrow>
                if key = [] then start_engine s1
                else
                  (case setWallet keypair key s1 of
                     (True, s2) \<Rightarrow> start_engine s2
                   | (False, s2) \<Rightarrow>
                       (False, broadcastBotStatus (Some ''Failed to load wallet'')
                                 (s2\<lparr>isRunning := False\<rparr>)))))"

text \<open>The status accessors.\<close>

definition running :: "engine \<Rightarrow> bool" where
  "running s = isRunning s"

definition config :: "engine \<Rightarrow> BotConfig option" where
  "config s = currentConfig s"

definition lastScan :: "engine \<Rightarrow> nat" where
  "lastScan s = lastScanTime s"

definition errors :: "engine \<Rightarrow> nat" where
  "errors s = errorCount s"

subsection \<open>Runs of the engine\<close>

text \<open>
  What can happen to an engine: a call of \<open>start\<close> or \<open>stop\<close>, a tick of the timer, the
  settling of the scan that \<open>start\<close> began, and the passing of time.
\<close>

datatype operation =
    Start BotConfig
  | Stop
  | Tick tick
  | Settle tick
  | Elapse nat

fun perform :: "(string \<Rightarrow> string option) \<Rightarrow> operation \<Rightarrow> engine \<Rightarrow> engine" where
  "perform keypair (Start c) s = snd (start keypair c s)"
| "perform keypair Stop s = stop s"
| "perform keypair (Tick env) s = scanForOpportunities env s"
| "perform keypair (Settle env) s = scan_settle env s"
| "perform keypair (Elapse t) s = s\<lparr>clock := t\<rparr>"

fun run :: "(string \<Rightarrow> string option) \<Rightarrow> operation list \<Rightarrow> engine \<Rightarrow> engine" where
  "run keypair [] s = s"
| "run keypair (x # xs) s = run keypair xs (perform keypair x s)"

text \<open>
  Fixed endpoints for examples: a first and a second leg of a round trip of 0.1 that gains
  0.7 percent, and the two legs of a round trip of 0.3 that gains one smallest unit.
\<close>

definition even1_endpoint :: quote_endpoint where
  "even1_endpoint inMint outMint amount slippage =
     Some \<lparr>inputMint = inMint, inAmount = ''300000000'', outputMint = outMint,
           outAmount = ''45000000''\<rparr>"

definition even2_endpoint :: quote_endpoint where
  "even2_endpoint inMint outMint amount slippage =
     Some \<lparr>inputMint = inMint, inAmount = ''45000000'', outputMint = outMint,
           outAmount = ''300000001''\<rparr>"

definition leg1_endpoint :: quote_endpoint where
  "leg1_endpoint inMint outMint amount slippage =
     Some \<lparr>inputMint = inMint, inAmount = ''100000000'', outputMint = outMint,
           outAmount = ''15000000''\<rparr>"

definition leg2_endpoint :: quote_endpoint where
  "leg2_endpoint inMint outMint amount slippage =
     Some \<lparr>inputMint = inMint, inAmount = ''15000000'', outputMint = outMint,
           outAmount = ''100700000''\<rparr>"

section \<open>Observations on the call log\<close>

fun creates_opportunity :: "call \<Rightarrow> bool" where
  "creates_opportunity (CreateOpportunity row) = True"
| "creates_opportunity c = False"

fun creates_trade :: "call \<Rightarrow> bool" where
  "creates_trade (CreateTrade row) = True"
| "creates_trade c = False"

fun invokes_executor :: "call \<Rightarrow> bool" where
  "invokes_executor (ExecuteArbitrage a b amount mock) = True"
| "invokes_executor c = False"

fun updates_trade :: "call \<Rightarrow> bool" where
  "updates_trade (UpdateTrade ident updates) = True"
| "updates_trade c = False"

fun updates_opportunity :: "call \<Rightarrow> bool" where
  "updates_opportunity (UpdateOpportunity ident updates) = True"
| "updates_opportunity c = False"

text \<open>The calls a step added to the log.\<close>

definition new_calls :: "engine \<Rightarrow> engine \<Rightarrow> call list" where
  "new_calls s s' = drop (length (calls s)) (calls s')"

text \<open>No stored trade is pending.\<close>

definition all_settled :: "engine \<Rightarrow> bool" where
  "all_settled s = (\<forall>k t. trades s k = Some t \<longrightarrow> status t \<noteq> ''pending'')"

text \<open>
  The configurations of the \<open>Start\<close> calls that a run issues while the engine is Idle, in
  the order of the calls.
\<close>

fun idle_starts :: "(string \<Rightarrow> string option) \<Rightarrow> operation list \<Rightarrow> engine \<Rightarrow> BotConfig list" where
  "idle_starts keypair [] s = []"
| "idle_starts keypair (Start c # xs) s =
     (if isRunning s then [] else [c]) @ idle_starts keypair xs (perform keypair (Start c) s)"
| "idle_starts keypair (x # xs) s = idle_starts keypair xs (perform keypair x s)"

section \<open>Example configurations, ticks and states\<close>

text \<open>The demo configuration of \<open>server/index.ts\<close>.\<close>

definition demoConfig :: BotConfig where
  "demoConfig =
     \<lparr>BotConfig.id' = ''demo-config'', userId = ''demo-user'',
      tokenA = ''So11111111111111111111111111111111111111112'',
      tokenB = ''EPjFWdd5AufqSSqeM2qN1xzybapC8G4wEGGkZwyTDt1v'',
      profitThreshold = Text ''0.5'', maxTradeAmount = Text ''0.1'', scanInterval = 15,
      isActive = False, walletAddress = None, privateKey = None, mockMode = True\<rparr>"

definition no_keypair :: "string \<Rightarrow> string option" where
  "no_keypair key = None"

definition gain07 :: simulation where
  "gain07 = \<lparr>simulation.profitOpportunity = Finite (50440315826549 / 72057594037927936),
             simulation.profitPercentage = Finite (6305039478318625 / 9007199254740992),
             simulation.priceA = Finite 150000000,
             simulation.priceB = Finite (3519720106666667 / 524288)\<rparr>"

definition gain02 :: simulation where
  "gain02 = \<lparr>simulation.profitOpportunity = Finite (14411518807585 / 72057594037927936),
             simulation.profitPercentage = Finite (1801439850948125 / 9007199254740992),
             simulation.priceA = Finite 150000000,
             simulation.priceB = Finite 6680000000\<rparr>"

definition mock_success :: ExecutionResult where
  "mock_success = \<lparr>success = True, ExecutionResult.txSignature = Some ''mock_tx_1700000002000'',
                   ExecutionResult.profit = Some (Finite (50440315826549 / 72057594037927936)),
                   error = None\<rparr>"

definition winning_tick :: tick where
  "winning_tick = \<lparr>evaluation = Returns (Some gain07), evaluatedAt = 1700000001000,
                   opportunityId = ''opp-1'', tradeId = ''trade-1'',
                   execution = Returns mock_success, settledAt = 1700000002000\<rparr>"

definition losing_tick :: tick where
  "losing_tick = winning_tick\<lparr>execution := Returns (failure ''Failed to simulate trade'')\<rparr>"

definition crashing_tick :: tick where
  "crashing_tick = winning_tick\<lparr>execution := Throws ''socket hang up''\<rparr>"

definition low_tick :: tick where
  "low_tick = winning_tick\<lparr>evaluation := Returns (Some gain02)\<rparr>"

definition quiet_tick :: tick where
  "quiet_tick = winning_tick\<lparr>evaluation := Returns None\<rparr>"

definition failing_tick :: tick where
  "failing_tick = winning_tick\<lparr>evaluation := Throws ''request timed out''\<rparr>"

definition started :: engine where
  "started = run no_keypair [Start demoConfig] initial"

definition troubled :: engine where
  "troubled = run no_keypair [Tick failing_tick, Tick failing_tick, Tick failing_tick] started"

definition strained :: engine where
  "strained = run no_keypair [Tick failing_tick] troubled"

text \<open>The state in which a tick calls \<open>executeTrade\<close>: the opportunity row is stored.\<close>

definition demo_row :: NewArbitrageOpportunity where
  "demo_row = opportunityRow ''opp-1'' gain07 demoConfig 1700000001000"

definition listed :: engine where
  "listed = createOpportunity demo_row (started\<lparr>clock := 1700000001000\<rparr>)"

text \<open>A configuration with a private key that does not decode.\<close>

definition badKeyConfig :: BotConfig where
  "badKeyConfig = demoConfig\<lparr>BotConfig.id' := ''live-config'', privateKey := Some ''not-a-key'',
                              mockMode := False\<rparr>"

text \<open>A market that answers both quotes and has no swap service or chain, and one that
  answers no quote.\<close>

definition demo_market :: market where
  "demo_market =
     \<lparr>quoteAtoB_http = leg1_endpoint, quoteBtoA_http = leg2_endpoint,
      swapAtoB_http = (\<lambda>q k. None), swapBtoA_http = (\<lambda>q k. None),
      chainAtoB = (\<lambda>t k. None), chainBtoA = (\<lambda>t k. None), now = 1700000002000\<rparr>"

definition closed_market :: market where
  "closed_market = demo_market\<lparr>quoteAtoB_http := (\<lambda>a b n bps. None)\<rparr>"

section \<open>Facts about rounding\<close>

lemma bit_length_bounds:
  "0 < n \<Longrightarrow> 2 ^ (bit_length n - 1) \<le> n \<and> n < 2 ^ bit_length n"
proof (induction n rule: bit_length.induct)
  case (1 n)
  show ?case
  proof (cases "n div 2 = 0")
    case True
    with "1.prems" have "n = 1" by (simp add: div_eq_0_iff)
    then show ?thesis by (simp add: bit_length.simps)
  next
    case False
    then have pos: "0 < n div 2" by simp
    from "1.IH" [OF _ pos] "1.prems"
    have ih: "2 ^ (bit_length (n div 2) - 1) \<le> n div 2" "n div 2 < 2 ^ bit_length (n div 2)"
      by simp_all
    have bl: "bit_length n = Suc (bit_length (n div 2))"
      using "1.prems" by (subst bit_length.simps) simp
    have gt: "0 < bit_length (n div 2)"
      using pos by (subst bit_length.simps) simp
    then obtain k where k: "bit_length (n div 2) = Suc k" by (cases "bit_length (n div 2)") auto
    from ih k have "2 ^ k \<le> n div 2" "n div 2 < 2 ^ Suc k" by simp_all
    then have "2 * 2 ^ k \<le> n" "n < 2 * 2 ^ Suc k" by linarith+
    then show ?thesis by (simp add: bl k)
  qed
qed

lemma real_pow_le: "(2::nat) ^ k \<le> n \<Longrightarrow> (2::real) ^ k \<le> real n"
  using of_nat_mono [of "2 ^ k" n, where ?'a = real] by simp

lemma real_less_pow: "n < (2::nat) ^ k \<Longrightarrow> real n < 2 ^ k"
  using of_nat_less_iff [of n "2 ^ k", where ?'a = real] by simp

lemma bit_length_pos: "0 < n \<Longrightarrow> 0 < bit_length n"
  by (subst bit_length.simps) simp

lemma exponent_of_bounds:
  assumes "0 < x"
  shows "2 powi exponent_of x \<le> x" and "x < 2 powi (exponent_of x + 1)"
proof -
  have both: "2 powi exponent_of x \<le> x \<and> x < 2 powi (exponent_of x + 1)"
  proof (cases "1 \<le> x")
    case True
    let ?n = "nat \<lfloor>x\<rfloor>"
    have n: "0 < ?n" using True by simp
    from bit_length_pos [OF n] obtain m where m: "bit_length ?n = Suc m"
      by (cases "bit_length ?n") auto
    have e: "exponent_of x = int m" using True by (simp add: exponent_of_def m)
    from bit_length_bounds [OF n] m have b: "2 ^ m \<le> ?n" "Suc ?n \<le> 2 ^ Suc m" by simp_all
    have "(2::real) ^ m \<le> real ?n" using b(1) by (rule real_pow_le)
    moreover have "real ?n \<le> x" using True by simp
    ultimately have lo: "(2::real) ^ m \<le> x" by linarith
    have "real (Suc ?n) \<le> real (2 ^ Suc m)" using b(2) by (simp only: of_nat_le_iff)
    then have "real ?n + 1 \<le> 2 ^ Suc m" by simp
    moreover have "x < real ?n + 1" using True by simp
    ultimately have hi: "x < 2 ^ Suc m" by linarith
    have "int m + 1 = int (Suc m)" by simp
    then have p: "2 powi (int m + 1) = (2::real) ^ Suc m"
      by (simp only: power_int_of_nat)
    have "2 powi (int m) = (2::real) ^ m"
      by (simp only: power_int_of_nat)
    with lo hi p show ?thesis by (simp only: e simp_thms)
  next
    case False
    then have lt: "x < 1" by simp
    let ?c = "\<lceil>1 / x\<rceil>"
    have "1 < 1 / x" using assms lt by simp
    then have c2: "2 \<le> ?c" by linarith
    then have n: "0 < nat (?c - 1)" by simp
    from bit_length_pos [OF n] obtain m where m: "bit_length (nat (?c - 1)) = Suc m"
      by (cases "bit_length (nat (?c - 1))") auto
    have e: "exponent_of x = - int (Suc m)" using lt by (simp add: exponent_of_def m)
    from bit_length_bounds [OF n] m
    have b: "2 ^ m \<le> nat (?c - 1)" "nat (?c - 1) < 2 ^ Suc m" by simp_all
    have "real (nat (?c - 1)) < 2 ^ Suc m" using b(2) by (rule real_less_pow)
    then have "real_of_int (?c - 1) < real_of_int (2 ^ Suc m)" using c2 by simp
    then have "?c - 1 < 2 ^ Suc m" by (simp only: of_int_less_iff)
    then have "?c \<le> 2 ^ Suc m" by simp
    then have "real_of_int ?c \<le> real_of_int (2 ^ Suc m)" by (simp only: of_int_le_iff)
    then have "real_of_int ?c \<le> 2 ^ Suc m" by simp
    moreover have "1 / x \<le> real_of_int ?c" by simp
    ultimately have "1 / x \<le> 2 ^ Suc m" by linarith
    then have "1 \<le> 2 ^ Suc m * x" using assms by (simp add: field_simps)
    then have lo: "1 / 2 ^ Suc m \<le> x" by (simp add: field_simps)
    have "0 \<le> ?c - 1" using c2 by linarith
    then have "real (nat (?c - 1)) = real_of_int (?c - 1)" by (rule of_nat_nat)
    then have cast: "real (nat (?c - 1)) = real_of_int ?c - 1" by (simp only: of_int_diff of_int_1)
    have "(2::real) ^ m \<le> real (nat (?c - 1))" using b(1) by (rule real_pow_le)
    then have "(2::real) ^ m \<le> real_of_int ?c - 1" by (simp only: cast)
    moreover have "real_of_int ?c - 1 < 1 / x" by linarith
    ultimately have "(2::real) ^ m < 1 / x" by linarith
    then have "2 ^ m * x < 1" using assms by (simp add: field_simps)
    then have hi: "x < 1 / 2 ^ m" by (simp add: field_simps)
    have p1: "2 powi (- int (Suc m)) = 1 / (2::real) ^ Suc m"
      by (simp only: power_int_minus power_int_of_nat inverse_eq_divide)
    have "- int (Suc m) + 1 = - int m" by simp
    then have p2: "2 powi (- int (Suc m) + 1) = 1 / (2::real) ^ m"
      by (simp only: power_int_minus power_int_of_nat inverse_eq_divide)
    from lo hi show ?thesis by (simp only: e p1 p2 simp_thms)
  qed
  from both show "2 powi exponent_of x \<le> x" and "x < 2 powi (exponent_of x + 1)"
    by simp_all
qed

lemma round_half_even_error: "\<bar>of_int (round_half_even r) - r\<bar> \<le> 1 / 2"
  by (simp add: round_half_even_def Let_def)

lemma nearest_double_zero: "nearest_double 0 = 0"
  by (simp add: nearest_double_def round_half_even_def Let_def)

lemma round_half_even_nonneg: "0 \<le> r \<Longrightarrow> 0 \<le> round_half_even r"
  by (simp add: round_half_even_def Let_def)

lemma nearest_double_nonneg: "0 \<le> x \<Longrightarrow> 0 \<le> nearest_double x"
  by (simp add: nearest_double_def Let_def round_half_even_nonneg)

text \<open>
  Rounding moves a positive real by at most one part in \<open>2^53\<close>, or by half a unit of
  the subnormal grid.
\<close>

lemma nearest_double_error:
  assumes "0 < x"
  shows "\<bar>nearest_double x - x\<bar> \<le> x / 2 ^ 53 + 2 powi (- 1075)"
proof -
  define q where "q = max (exponent_of x - 52) (- 1074)"
  define P :: real where "P = 2 powi q"
  have Ppos: "0 < P" by (simp add: P_def)
  have nd: "nearest_double x = of_int (round_half_even (x / P)) * P"
    by (simp add: nearest_double_def Let_def q_def P_def)
  have "\<bar>of_int (round_half_even (x / P)) - x / P\<bar> \<le> 1 / 2"
    by (rule round_half_even_error)
  then have "\<bar>of_int (round_half_even (x / P)) - x / P\<bar> * P \<le> 1 / 2 * P"
    using Ppos by (simp only: mult_le_cancel_right_pos)
  moreover have "\<bar>of_int (round_half_even (x / P)) - x / P\<bar> * P
                   = \<bar>of_int (round_half_even (x / P)) * P - x\<bar>"
  proof -
    have "(of_int (round_half_even (x / P)) - x / P) * P
            = of_int (round_half_even (x / P)) * P - x"
      using Ppos by (simp add: field_simps)
    then have "\<bar>of_int (round_half_even (x / P)) * P - x\<bar>
                 = \<bar>of_int (round_half_even (x / P)) - x / P\<bar> * \<bar>P\<bar>"
      by (simp only: abs_mult [symmetric])
    then show ?thesis using Ppos by simp
  qed
  ultimately have err: "\<bar>nearest_double x - x\<bar> \<le> P / 2" by (simp add: nd)
  have "2 powi (exponent_of x - 52) = 2 powi exponent_of x / (2::real) ^ 52"
    by (simp add: power_int_diff)
  also have "\<dots> \<le> x / 2 ^ 52"
    using exponent_of_bounds(1) [OF assms] by (simp add: divide_right_mono)
  finally have a: "2 powi (exponent_of x - 52) \<le> x / 2 ^ 52" .
  have "P \<le> x / 2 ^ 52 + 2 powi (- 1074)"
  proof (cases "exponent_of x - 52 \<le> - 1074")
    case True
    then have "q = - 1074" by (simp add: q_def)
    then show ?thesis using assms by (simp add: P_def)
  next
    case False
    then have "q = exponent_of x - 52" by (simp add: q_def)
    with a show ?thesis by (simp add: P_def)
  qed
  then have "P / 2 \<le> x / 2 ^ 53 + 2 powi (- 1074) / 2" by simp
  moreover have "2 powi (- 1074) / 2 = (2::real) powi (- 1075)"
  proof -
    have "(2::real) powi (- 1074 - 1) * 2 = 2 powi (- 1074)"
      by (rule power_int_minus_mult) simp
    then have "(2::real) powi (- 1075) * 2 = 2 powi (- 1074)" by simp
    then show ?thesis by linarith
  qed
  ultimately show ?thesis using err by linarith
qed

lemma to_number_finite:
  assumes "0 \<le> x" and "nearest_double x < 2 ^ 1024"
  shows "to_number neg x \<noteq> NaN" and "\<not> is_infinite (to_number neg x)"
    and "real_of (to_number neg x) = (if neg then - nearest_double x else nearest_double x)"
  using assms
  by (auto simp: to_number_def zero_def Let_def nearest_double_zero)

lemma tiny_bound: "2 * (2::real) powi (- 1075) \<le> (1 / 1000000000) / 2 ^ 53"
proof -
  have "(2::real) powi (- 1075) \<le> 2 powi (- 100)"
    by (rule power_int_increasing) simp_all
  also have "(2::real) powi (- 100) = 1 / 2 ^ 100"
    by (simp add: power_int_minus_divide)
  finally have "(2::real) powi (- 1075) \<le> 1 / 2 ^ 100" .
  moreover have "2 * (1 / (2::real) ^ 100) \<le> (1 / 1000000000) / 2 ^ 53" by simp
  ultimately show ?thesis by linarith
qed

lemma below_overflow: "x \<le> 2 ^ 56 \<Longrightarrow> x < (2::real) ^ 1024"
proof -
  assume "x \<le> 2 ^ 56"
  moreover have "(2::real) ^ 56 < 2 ^ 1024"
    by (rule power_strict_increasing) simp_all
  ultimately show ?thesis by (rule le_less_trans)
qed

lemma division_rounded:
  assumes "1 \<le> x" and "x \<le> 2 ^ 53"
  shows "num_div (Finite x) (Finite 1000000000)
           = Finite (nearest_double (x / 1000000000))"
    and "\<bar>nearest_double (x / 1000000000) - x / 1000000000\<bar>
           \<le> 3 / 2 * (x / 1000000000) / 2 ^ 53"
    and "0 \<le> nearest_double (x / 1000000000)"
proof -
  let ?o = "x / 1000000000"
  let ?t = "(2::real) powi (- 1075)"
  have o: "0 < ?o" "1 / 1000000000 \<le> ?o" "?o \<le> 2 ^ 53" using assms by simp_all
  from nearest_double_error [OF o(1)]
  have e: "\<bar>nearest_double ?o - ?o\<bar> \<le> ?o / 2 ^ 53 + ?t" .
  have t: "2 * ?t \<le> ?o / 2 ^ 53"
    using tiny_bound o(2) by (simp add: field_simps)
  from e t show "\<bar>nearest_double ?o - ?o\<bar> \<le> 3 / 2 * ?o / 2 ^ 53" by simp
  show nn: "0 \<le> nearest_double ?o" using o(1) by (simp add: nearest_double_nonneg)
  have "nearest_double ?o \<le> 2 ^ 56" using e t o(3) by simp
  then have "nearest_double ?o < 2 ^ 1024" by (rule below_overflow)
  then show "num_div (Finite x) (Finite 1000000000) = Finite (nearest_double ?o)"
    using assms(1) by (simp add: num_div_def to_number_def zero_def Let_def)
qed

lemma subtraction_rounded:
  assumes "0 \<le> a" and "a \<le> 2 ^ 54" and "0 < b" and "b \<le> 2 ^ 53"
  shows "num_sub (Finite a) (Finite b) \<noteq> NaN"
    and "\<not> is_infinite (num_sub (Finite a) (Finite b))"
    and "\<bar>real_of (num_sub (Finite a) (Finite b)) - (a - b)\<bar>
           \<le> \<bar>a - b\<bar> / 2 ^ 53 + 2 powi (- 1075)"
proof -
  let ?s = "a - b"
  have sub: "num_sub (Finite a) (Finite b) = (if ?s = 0 then Finite 0 else rounded ?s)"
    using assms(3) by (simp add: num_sub_def num_add_def zero_def)
  have all: "num_sub (Finite a) (Finite b) \<noteq> NaN
        \<and> \<not> is_infinite (num_sub (Finite a) (Finite b))
        \<and> \<bar>real_of (num_sub (Finite a) (Finite b)) - ?s\<bar> \<le> \<bar>?s\<bar> / 2 ^ 53 + 2 powi (- 1075)"
  proof (cases "?s = 0")
    case True
    with sub have z: "num_sub (Finite a) (Finite b) = Finite 0" by (simp only: simp_thms if_True)
    have "0 \<le> (2::real) powi (- 1075)" by (rule zero_le_power_int) simp
    with True show ?thesis by (simp only: z) simp
  next
    case False
    then have pos: "0 < \<bar>?s\<bar>" by simp
    define t :: real where "t = 2 powi (- 1075)"
    define d where "d = nearest_double \<bar>?s\<bar>"
    define m where "m = \<bar>?s\<bar>"
    from nearest_double_error [OF pos]
    have e: "\<bar>d - m\<bar> \<le> m / 2 ^ 53 + t" by (simp only: t_def d_def m_def)
    have "(2::real) powi (- 1075) \<le> 2 powi 0"
      by (rule power_int_increasing) simp_all
    then have t1: "t \<le> 1" by (simp add: t_def)
    have "m \<le> 2 ^ 54 + 2 ^ 53" using assms by (simp add: m_def)
    with e t1 have "d \<le> 2 ^ 56" by simp
    then have "nearest_double \<bar>?s\<bar> \<le> 2 ^ 56" by (simp only: d_def)
    then have fin: "nearest_double \<bar>?s\<bar> < 2 ^ 1024" by (rule below_overflow)
    have nn: "0 \<le> \<bar>?s\<bar>" by simp
    note f = to_number_finite [OF nn fin, of "?s < 0"]
    have r: "num_sub (Finite a) (Finite b) = to_number (?s < 0) \<bar>?s\<bar>"
      using False by (simp add: sub rounded_def)
    have "\<bar>real_of (to_number (?s < 0) \<bar>?s\<bar>) - ?s\<bar> = \<bar>nearest_double \<bar>?s\<bar> - \<bar>?s\<bar>\<bar>"
      using f(3) by (cases "?s < 0") simp_all
    with e f(1,2) show ?thesis by (simp only: r simp_thms t_def d_def m_def)
  qed
  from all show "num_sub (Finite a) (Finite b) \<noteq> NaN"
    and "\<not> is_infinite (num_sub (Finite a) (Finite b))"
    and "\<bar>real_of (num_sub (Finite a) (Finite b)) - (a - b)\<bar>
           \<le> \<bar>a - b\<bar> / 2 ^ 53 + 2 powi (- 1075)"
    by simp_all
qed

section \<open>Facts about the evaluator\<close>

lemmas rounding = to_number_def nearest_double_def exponent_of_def round_half_even_def
  bit_length.simps zero_def infinity_def Let_def

lemmas arithmetic = num_div_def num_mul_def num_sub_def num_add_def rounded_def

lemmas reading = parseInt_def is_space_def digit_of_def digits_value_def

lemma parseInt_100000000: "parseInt ''100000000'' = Finite 100000000"
  by (simp add: reading rounding)

lemma parseInt_15000000: "parseInt ''15000000'' = Finite 15000000"
  by (simp add: reading rounding)

lemma parseInt_100700000: "parseInt ''100700000'' = Finite 100700000"
  by (simp add: reading rounding)

lemma parseInt_300000001: "parseInt ''300000001'' = Finite 300000001"
  by (simp add: reading rounding)

lemma parseInt_300000000: "parseInt ''300000000'' = Finite 300000000"
  by (simp add: reading rounding)

lemma parseInt_45000000: "parseInt ''45000000'' = Finite 45000000"
  by (simp add: reading rounding)

lemma parseInt_15: "parseInt ''15'' = Finite 15"
  by (simp add: reading rounding)

lemmas parsing = parseFloat_string_def is_space_def is_digit_def decimal_value_def
  read_exponent_def scale10_def

lemma parseFloat_half: "parseFloat (Text ''0.5'') = Finite (1 / 2)"
  by (simp add: parsing) (simp add: rounding)

lemma parseFloat_tenth:
  "parseFloat (Text ''0.1'') = Finite (3602879701896397 / 36028797018963968)"
  by (simp add: parsing) (simp add: rounding)

lemma parseFloat_three_tenths:
  "parseFloat (Text ''0.3'') = Finite (5404319552844595 / 18014398509481984)"
  by (simp add: parsing) (simp add: rounding)

text \<open>The arithmetic of the two example round trips, operation by operation.\<close>

lemma trip_01:
  "num_div (Finite 100700000) (Finite 1000000000) = Finite (7256199719619343 / 72057594037927936)"
  "num_sub (Finite (7256199719619343 / 72057594037927936))
           (Finite (3602879701896397 / 36028797018963968))
     = Finite (50440315826549 / 72057594037927936)"
  "num_div (Finite (50440315826549 / 72057594037927936))
           (Finite (3602879701896397 / 36028797018963968))
     = Finite (252201579132745 / 36028797018963968)"
  "num_mul (Finite (252201579132745 / 36028797018963968)) (Finite 100)
     = Finite (6305039478318625 / 9007199254740992)"
  "num_div (Finite 100000000) (Finite 1000000000) = Finite (3602879701896397 / 36028797018963968)"
  "num_div (Finite 15000000) (Finite (3602879701896397 / 36028797018963968)) = Finite 150000000"
  "num_div (Finite 15000000) (Finite 1000000000) = Finite (1080863910568919 / 72057594037927936)"
  "num_div (Finite 100700000) (Finite (1080863910568919 / 72057594037927936))
     = Finite (3519720106666667 / 524288)"
  by (simp_all add: arithmetic) (simp_all add: rounding)

lemma trip_03:
  "num_div (Finite 300000001) (Finite 1000000000) = Finite (2702159785429497 / 9007199254740992)"
  "num_sub (Finite (2702159785429497 / 9007199254740992))
           (Finite (5404319552844595 / 18014398509481984))
     = Finite (18014399 / 18014398509481984)"
  "num_div (Finite (18014399 / 18014398509481984))
           (Finite (5404319552844595 / 18014398509481984))
     = Finite (4029752841775787 / 1208925819614629174706176)"
  "num_mul (Finite (4029752841775787 / 1208925819614629174706176)) (Finite 100)
     = Finite (6296488815274667 / 18889465931478580854784)"
  "num_div (Finite 300000000) (Finite 1000000000) = Finite (5404319552844595 / 18014398509481984)"
  "num_div (Finite 45000000) (Finite (5404319552844595 / 18014398509481984)) = Finite 150000000"
  "num_div (Finite 45000000) (Finite 1000000000) = Finite (3242591731706757 / 72057594037927936)"
  "num_div (Finite 300000001) (Finite (3242591731706757 / 72057594037927936))
     = Finite (1747626672492089 / 262144)"
  by (simp_all add: arithmetic) (simp_all add: rounding)

text \<open>
  The amount that \<open>getQuote\<close> sends for the second leg is the first leg's output
  divided by \<open>10^9\<close> and multiplied by \<open>10^9\<close> again, each time rounded, and then
  floored: for an output of 15 smallest units it is 14.
\<close>

lemma second_leg_request:
  "Math_floor (num_mul (num_div (parseInt ''15'') (Finite 1000000000)) (Finite 1000000000))
     = Finite 14"
proof -
  have "num_div (Finite 15) (Finite 1000000000) = Finite (4533471823554859 / 302231454903657293676544)"
    by (simp add: arithmetic) (simp add: rounding)
  moreover have "num_mul (Finite (4533471823554859 / 302231454903657293676544)) (Finite 1000000000)
                   = Finite (8444249301319679 / 562949953421312)"
    by (simp add: arithmetic) (simp add: rounding)
  ultimately show ?thesis by (simp add: parseInt_15)
qed

lemma to_number_not_nan: "to_number neg x \<noteq> NaN"
  by (simp add: to_number_def zero_def infinity_def Let_def)

lemma num_div_not_nan:
  "a \<noteq> NaN \<Longrightarrow> \<not> is_infinite a \<Longrightarrow> b \<noteq> 0 \<Longrightarrow> num_div a (Finite b) \<noteq> NaN"
  by (simp add: num_div_def to_number_not_nan zero_def infinity_def)

lemma num_mul_100_not_nan: "a \<noteq> NaN \<Longrightarrow> num_mul a (Finite 100) \<noteq> NaN"
  by (cases a) (simp_all add: num_mul_def to_number_not_nan infinity_def)

text \<open>
  C3, as stated, fails: the evaluator computes in doubles. For an input amount of 0.3
  and a second-leg output of 300000001 smallest units the returned profit is
  \<open>18014399 / 2^54\<close>, which is not the second-leg output in units minus the input amount,
  and is off by more than one part in \<open>10^9\<close>; the returned percentage is not the
  returned profit divided by the input amount times 100.
\<close>

theorem simulate_profit_not_exact:
  "parseFloat (Text ''0.3'') = Finite (5404319552844595 / 18014398509481984)
   \<and> map_option simulation.profitOpportunity
         (simulateArbitrageOpportunity even1_endpoint even2_endpoint ''SOL'' ''USDC''
            (parseFloat (Text ''0.3'')))
       = Some (Finite (18014399 / 18014398509481984))
   \<and> (18014399 / 18014398509481984 :: real)
       \<noteq> 300000001 / 1000000000 - 5404319552844595 / 18014398509481984
   \<and> (300000001 / 1000000000 - 5404319552844595 / 18014398509481984) / 1000000000
       < \<bar>(18014399 / 18014398509481984 :: real)
           - (300000001 / 1000000000 - 5404319552844595 / 18014398509481984)\<bar>
   \<and> map_option simulation.profitPercentage
         (simulateArbitrageOpportunity even1_endpoint even2_endpoint ''SOL'' ''USDC''
            (parseFloat (Text ''0.3'')))
       = Some (Finite (6296488815274667 / 18889465931478580854784))
   \<and> (6296488815274667 / 18889465931478580854784 :: real)
       \<noteq> (18014399 / 18014398509481984) / (5404319552844595 / 18014398509481984) * 100"
  by (simp add: simulateArbitrageOpportunity_def getQuote_def even1_endpoint_def
        even2_endpoint_def Let_def parseFloat_three_tenths parseInt_300000001
        parseInt_300000000 parseInt_45000000 trip_03
      del: parseFloat.simps)

text \<open>
  C3, amended. For successful quotes Q1 (tokenA to tokenB on the input amount) and Q2 (the
  quote the evaluator requests for the way back), with a positive input amount and a
  second-leg output of at least one smallest unit, both at most \<open>2^53\<close>: the returned
  profit is Q2's output amount divided by \<open>10^9\<close> minus the input amount, and the
  returned percentage is that profit divided by the input amount times 100, where every
  operation is rounded to the nearest double. Neither is \<open>NaN\<close>, the profit is finite,
  and it differs from the exact difference by at most the sum of the two amounts divided
  by \<open>2^51\<close>.
\<close>

theorem simulateArbitrageOpportunity_profit_rounded:
  assumes q1: "getQuote http1 mintA mintB (Finite amount) = Some Q1"
    and out1: "parseInt (outAmount Q1) = Finite outB"
    and q2: "getQuote http2 mintB mintA (num_div (Finite outB) (Finite 1000000000)) = Some Q2"
    and out2: "parseInt (outAmount Q2) = Finite outA"
    and pos: "0 < amount" "1 \<le> outA"
    and range: "amount \<le> 2 ^ 53" "outA \<le> 2 ^ 53"
  shows "\<exists>r. simulateArbitrageOpportunity http1 http2 mintA mintB (Finite amount) = Some r
           \<and> simulation.profitOpportunity r =
                 num_sub (num_div (Finite outA) (Finite 1000000000)) (Finite amount)
           \<and> simulation.profitPercentage r =
                 num_mul (num_div (simulation.profitOpportunity r) (Finite amount)) (Finite 100)
           \<and> simulation.profitOpportunity r \<noteq> NaN
           \<and> \<not> is_infinite (simulation.profitOpportunity r)
           \<and> simulation.profitPercentage r \<noteq> NaN
           \<and> \<bar>real_of (simulation.profitOpportunity r) - (outA / 1000000000 - amount)\<bar>
                 \<le> (outA / 1000000000 + amount) / 2 ^ 51"
proof -
  define ox where "ox = outA / 1000000000"
  define a where "a = nearest_double ox"
  define t :: real where "t = 2 powi (- 1075)"
  define p where "p = num_sub (Finite a) (Finite amount)"
  note d = division_rounded [OF pos(2) range(2), folded ox_def a_def]
  have o: "1 / 1000000000 \<le> ox" "ox \<le> 2 ^ 53" using pos(2) range(2) by (simp_all add: ox_def)
  have K: "(2::real) ^ 53 = 9007199254740992" "(2::real) ^ 51 = 2251799813685248"
    "(2::real) ^ 54 = 18014398509481984"
    by simp_all
  have d2: "\<bar>a - ox\<bar> \<le> 3 / 2 * ox / 9007199254740992"
    using d(2) by (simp only: K)
  have o2: "ox \<le> 9007199254740992" using o(2) by (simp only: K)
  have "a \<le> 18014398509481984" using d2 o2 o(1) by linarith
  then have a54: "a \<le> 2 ^ 54" by (simp only: K)
  note s = subtraction_rounded [OF d(3) a54 pos(1) range(1), folded p_def t_def]
  have "2 * t \<le> 1 / 1000000000 / 9007199254740992"
    using tiny_bound by (simp only: t_def K)
  moreover have "1 / 1000000000 / 9007199254740992 \<le> ox / 9007199254740992"
    using o(1) by (simp add: divide_right_mono)
  ultimately have t: "2 * t \<le> ox / 9007199254740992" by linarith
  have s3: "\<bar>real_of p - (a - amount)\<bar> \<le> \<bar>a - amount\<bar> / 9007199254740992 + t"
    using s(3) by (simp only: K)
  have "\<bar>a - amount\<bar> \<le> a + amount" using d(3) pos(1) by linarith
  then have "\<bar>a - amount\<bar> / 9007199254740992 \<le> (a + amount) / 9007199254740992"
    by (simp add: divide_right_mono)
  with s3 have s4: "\<bar>real_of p - (a - amount)\<bar> \<le> (a + amount) / 9007199254740992 + t"
    by linarith
  note d3 = abs_le_D1 [OF d2] abs_le_D2 [OF d2]
  note s5 = abs_le_D1 [OF s4] abs_le_D2 [OF s4]
  have "\<bar>real_of p - (ox - amount)\<bar> \<le> (ox + amount) / 2251799813685248"
  proof (rule abs_leI)
    show "real_of p - (ox - amount) \<le> (ox + amount) / 2251799813685248"
      using d3 s5 t pos(1) o(1) by argo
    show "- (real_of p - (ox - amount)) \<le> (ox + amount) / 2251799813685248"
      using d3 s5 t pos(1) o(1) by argo
  qed
  then have bound: "\<bar>real_of p - (ox - amount)\<bar> \<le> (ox + amount) / 2 ^ 51"
    by (simp only: K)
  have pct: "num_mul (num_div p (Finite amount)) (Finite 100) \<noteq> NaN"
    using s(1,2) pos(1) by (simp add: num_div_not_nan num_mul_100_not_nan)
  have "simulateArbitrageOpportunity http1 http2 mintA mintB (Finite amount)
          = Some \<lparr>simulation.profitOpportunity = p,
                  simulation.profitPercentage = num_mul (num_div p (Finite amount)) (Finite 100),
                  simulation.priceA = num_div (Finite outB)
                     (num_div (parseInt (inAmount Q1)) (Finite 1000000000)),
                  simulation.priceB = num_div (Finite outA)
                     (num_div (parseInt (inAmount Q2)) (Finite 1000000000))\<rparr>"
    using q1 out1 q2 out2 by (simp add: simulateArbitrageOpportunity_def Let_def p_def d(1))
  moreover have "p = num_sub (num_div (Finite outA) (Finite 1000000000)) (Finite amount)"
    by (simp add: p_def d(1))
  ultimately show ?thesis
    using s(1,2) pct bound by (simp add: ox_def)
qed

theorem simulateArbitrageOpportunity_profit_rounded_witness:
  "\<exists>r. simulateArbitrageOpportunity leg1_endpoint leg2_endpoint ''SOL'' ''USDC''
          (Finite (3602879701896397 / 36028797018963968)) = Some r
       \<and> simulation.profitOpportunity r = Finite (50440315826549 / 72057594037927936)
       \<and> simulation.profitPercentage r = Finite (6305039478318625 / 9007199254740992)
       \<and> \<bar>real_of (simulation.profitOpportunity r)
            - (100700000 / 1000000000 - 3602879701896397 / 36028797018963968)\<bar>
           \<le> (100700000 / 1000000000 + 3602879701896397 / 36028797018963968) / 2 ^ 51"
proof -
  have a: "getQuote leg1_endpoint ''SOL'' ''USDC'' (Finite (3602879701896397 / 36028797018963968))
             = Some \<lparr>inputMint = ''SOL'', inAmount = ''100000000'', outputMint = ''USDC'',
                     outAmount = ''15000000''\<rparr>"
    by (simp add: getQuote_def leg1_endpoint_def)
  have b: "getQuote leg2_endpoint ''USDC'' ''SOL'' (num_div (Finite 15000000) (Finite 1000000000))
             = Some \<lparr>inputMint = ''USDC'', inAmount = ''15000000'', outputMint = ''SOL'',
                     outAmount = ''100700000''\<rparr>"
    by (simp add: getQuote_def leg2_endpoint_def)
  have c: "parseInt (outAmount \<lparr>inputMint = ''SOL'', inAmount = ''100000000'',
              outputMint = ''USDC'', outAmount = ''15000000''\<rparr>) = Finite 15000000"
    by (simp add: parseInt_15000000)
  have d: "parseInt (outAmount \<lparr>inputMint = ''USDC'', inAmount = ''15000000'',
              outputMint = ''SOL'', outAmount = ''100700000''\<rparr>) = Finite 100700000"
    by (simp add: parseInt_100700000)
  have e: "(0::real) < 3602879701896397 / 36028797018963968" "(1::real) \<le> 100700000"
    "(3602879701896397 / 36028797018963968 :: real) \<le> 2 ^ 53" "(100700000::real) \<le> 2 ^ 53"
    by simp_all
  show ?thesis
    using simulateArbitrageOpportunity_profit_rounded [OF a c b d e] by (auto simp add: trip_01)
qed

section \<open>Facts about the engine\<close>

subsection \<open>The trade-execution procedure, branch by branch\<close>

lemma spread_pending [simp]:
  "spread_trade (tradeRecord k c t) (updatedTrade (tradeRecord k c t) r) = updatedTrade (tradeRecord k c t) r"
  "spread_trade (tradeRecord k c t) (failedTrade (tradeRecord k c t) r) = failedTrade (tradeRecord k c t) r"
  "spread_trade (tradeRecord k c t) (errorTrade (tradeRecord k c t) m) = errorTrade (tradeRecord k c t) m"
  by (cases "ExecutionResult.txSignature r"; cases "error r";
      simp add: spread_trade_def tradeRecord_def updatedTrade_def failedTrade_def errorTrade_def)+

lemma tradeRecord_id [simp]: "NewTrade.id' (tradeRecord k c t) = k"
  by (simp add: tradeRecord_def)

lemma executeTrade_success:
  assumes "currentConfig s = Some c" and "execution env = Returns r" and "success r"
  shows "executeTrade env opp s =
     s\<lparr>trades := (trades s)(tradeId env \<mapsto> updatedTrade (tradeRecord (tradeId env) c (clock s)) r),
       opportunities :=
         (case opportunities s (NewArbitrageOpportunity.id' opp) of
            None \<Rightarrow> opportunities s
          | Some existing \<Rightarrow>
              (opportunities s)(NewArbitrageOpportunity.id' opp \<mapsto>
                 existing\<lparr>wasExecuted := True, executedTradeId := Value (tradeId env)\<rparr>)),
       calls := calls s @
         [CreateTrade (tradeRecord (tradeId env) c (clock s)),
          Broadcast (TradeMessage (tradeRecord (tradeId env) c (clock s)) (clock s)),
          ExecuteArbitrage (BotConfig.tokenA c) (BotConfig.tokenB c)
            (parseFloat (maxTradeAmount c)) (mockMode c),
          UpdateTrade (tradeId env) (updatedTrade (tradeRecord (tradeId env) c (clock s)) r),
          UpdateOpportunity (NewArbitrageOpportunity.id' opp)
            \<lparr>set_wasExecuted = Value True, set_executedTradeId = Value (tradeId env)\<rparr>,
          Broadcast (TradeMessage (updatedTrade (tradeRecord (tradeId env) c (clock s)) r) (settledAt env))],
       clock := settledAt env\<rparr>"
  using assms
  by (simp add: executeTrade_def Let_def createTrade_def broadcastTrade_def broadcast_def
        logged_def updateTrade_def updateOpportunity_def spread_opportunity_def
      split: option.split)

lemma executeTrade_failure:
  assumes "currentConfig s = Some c" and "execution env = Returns r" and "\<not> success r"
  shows "executeTrade env opp s =
     s\<lparr>trades := (trades s)(tradeId env \<mapsto> failedTrade (tradeRecord (tradeId env) c (clock s)) r),
       calls := calls s @
         [CreateTrade (tradeRecord (tradeId env) c (clock s)),
          Broadcast (TradeMessage (tradeRecord (tradeId env) c (clock s)) (clock s)),
          ExecuteArbitrage (BotConfig.tokenA c) (BotConfig.tokenB c)
            (parseFloat (maxTradeAmount c)) (mockMode c),
          UpdateTrade (tradeId env) (failedTrade (tradeRecord (tradeId env) c (clock s)) r),
          Broadcast (TradeMessage (failedTrade (tradeRecord (tradeId env) c (clock s)) r) (settledAt env))],
       clock := settledAt env\<rparr>"
  using assms
  by (simp add: executeTrade_def Let_def createTrade_def broadcastTrade_def broadcast_def
        logged_def updateTrade_def)

lemma executeTrade_thrown:
  assumes "currentConfig s = Some c" and "execution env = Throws m"
  shows "executeTrade env opp s =
     s\<lparr>trades := (trades s)(tradeId env \<mapsto> errorTrade (tradeRecord (tradeId env) c (clock s)) m),
       calls := calls s @
         [CreateTrade (tradeRecord (tradeId env) c (clock s)),
          Broadcast (TradeMessage (tradeRecord (tradeId env) c (clock s)) (clock s)),
          ExecuteArbitrage (BotConfig.tokenA c) (BotConfig.tokenB c)
            (parseFloat (maxTradeAmount c)) (mockMode c),
          UpdateTrade (tradeId env) (errorTrade (tradeRecord (tradeId env) c (clock s)) m),
          Broadcast (TradeMessage (errorTrade (tradeRecord (tradeId env) c (clock s)) m) (settledAt env))],
       clock := settledAt env\<rparr>"
  using assms
  by (simp add: executeTrade_def Let_def createTrade_def broadcastTrade_def broadcast_def
        logged_def updateTrade_def)

subsection \<open>The scan tick and the error budget\<close>

lemma scan_begin_running:
  "isRunning s \<Longrightarrow> currentConfig s = Some c \<Longrightarrow>
   scan_begin s = logged (SimulateArbitrageOpportunity (BotConfig.tokenA c) (BotConfig.tokenB c)
                     (parseFloat (maxTradeAmount c))) (s\<lparr>lastScanTime := clock s\<rparr>)"
  by (simp add: scan_begin_def)

lemma scan_catch_below:
  "errorCount s + 1 < MAX_ERRORS \<Longrightarrow> scan_catch s = s\<lparr>errorCount := errorCount s + 1\<rparr>"
  by (simp add: scan_catch_def Let_def)

lemma scan_catch_ceiling:
  "MAX_ERRORS \<le> errorCount s + 1 \<Longrightarrow> isRunning s \<Longrightarrow> currentConfig s = Some c \<Longrightarrow>
   scan_catch s =
     s\<lparr>isRunning := False, engine.scanInterval := None, errorCount := errorCount s + 1,
       calls := calls s @
         [Broadcast (BotStatusMessage False (BotConfig.id' c) (lastScanTime s) None (clock s)),
          Broadcast (BotStatusMessage False (BotConfig.id' c) (lastScanTime s)
                       (Some ''Too many errors occurred'') (clock s))]\<rparr>"
  by (cases "engine.scanInterval s")
     (simp_all add: scan_catch_def Let_def stop_def broadcastBotStatus_def broadcast_def logged_def)

lemma scan_throws:
  assumes "isRunning s" and "currentConfig s = Some c" and "evaluation env = Throws message"
  shows "scanForOpportunities env s =
           scan_catch ((scan_begin s)\<lparr>clock := evaluatedAt env\<rparr>)"
  using assms by (simp add: scanForOpportunities_def scan_settle_def Let_def)

text \<open>
  C1. For a scan tick of a Running engine whose body raises (the awaited evaluator call
  rejects; the storage and broadcast calls of the repository never throw and the executor
  call has its own handler): the consecutive-error counter is incremented; while it stays
  below the ceiling of 5 the engine keeps running; when it reaches the ceiling the Stop
  procedure runs (running flag cleared, timer disarmed, a status event) and a
  \<open>bot_status\<close> event with the non-empty error message follows.
\<close>

theorem scan_error_budget:
  assumes run: "isRunning s" and cfg: "currentConfig s = Some c"
    and thrown: "evaluation env = Throws message"
  shows "errorCount (scanForOpportunities env s) = errorCount s + 1
       \<and> (errorCount s + 1 < MAX_ERRORS \<longrightarrow>
             isRunning (scanForOpportunities env s)
           \<and> engine.scanInterval (scanForOpportunities env s) = engine.scanInterval s
           \<and> new_calls s (scanForOpportunities env s) =
               [SimulateArbitrageOpportunity (BotConfig.tokenA c) (BotConfig.tokenB c)
                  (parseFloat (maxTradeAmount c))])
       \<and> (MAX_ERRORS \<le> errorCount s + 1 \<longrightarrow>
             \<not> isRunning (scanForOpportunities env s)
           \<and> engine.scanInterval (scanForOpportunities env s) = None
           \<and> new_calls s (scanForOpportunities env s) =
               [SimulateArbitrageOpportunity (BotConfig.tokenA c) (BotConfig.tokenB c)
                  (parseFloat (maxTradeAmount c)),
                Broadcast (BotStatusMessage False (BotConfig.id' c) (clock s) None (evaluatedAt env)),
                Broadcast (BotStatusMessage False (BotConfig.id' c) (clock s)
                             (Some ''Too many errors occurred'') (evaluatedAt env))])"
proof -
  let ?b = "(scan_begin s)\<lparr>clock := evaluatedAt env\<rparr>"
  have b: "isRunning ?b" "currentConfig ?b = Some c" "errorCount ?b = errorCount s"
    "calls ?b = calls s @ [SimulateArbitrageOpportunity (BotConfig.tokenA c) (BotConfig.tokenB c)
                  (parseFloat (maxTradeAmount c))]"
    "lastScanTime ?b = clock s" "clock ?b = evaluatedAt env"
    "engine.scanInterval ?b = engine.scanInterval s"
    using run cfg by (simp_all add: scan_begin_running logged_def)
  have eq: "scanForOpportunities env s = scan_catch ?b"
    using scan_throws [OF run cfg thrown] .
  show ?thesis
  proof (cases "errorCount s + 1 < MAX_ERRORS")
    case True
    then have "scan_catch ?b = ?b\<lparr>errorCount := errorCount ?b + 1\<rparr>"
      using b(3) by (simp add: scan_catch_below)
    with True b show ?thesis
      by (simp add: eq new_calls_def)
  next
    case False
    then have "MAX_ERRORS \<le> errorCount ?b + 1" using b(3) by simp
    from scan_catch_ceiling [OF this b(1) b(2)] False b show ?thesis
      by (simp add: eq new_calls_def)
  qed
qed

lemma started_facts:
  "isRunning started" "currentConfig started = Some demoConfig" "errorCount started = 0"
  "engine.scanInterval started = Some 15000"
  by (simp_all add: started_def start_def start_engine_def startScanning_def scan_begin_def
        demoConfig_def initial_def broadcastBotStatus_def broadcast_def logged_def Let_def)

lemma failing_tick_throws: "evaluation failing_tick = Throws ''request timed out''"
  by (simp add: failing_tick_def winning_tick_def)

lemma throwing_tick_below:
  assumes "isRunning s" and "currentConfig s = Some c" and "evaluation env = Throws m"
    and "errorCount s + 1 < MAX_ERRORS"
  shows "isRunning (scanForOpportunities env s)"
    and "currentConfig (scanForOpportunities env s) = Some c"
    and "errorCount (scanForOpportunities env s) = errorCount s + 1"
    and "engine.scanInterval (scanForOpportunities env s) = engine.scanInterval s"
    and "trades (scanForOpportunities env s) = trades s"
  using assms
  by (simp_all add: scan_throws scan_catch_below scan_begin_running logged_def)

lemma troubled_facts:
  "isRunning troubled" "currentConfig troubled = Some demoConfig" "errorCount troubled = 3"
  "engine.scanInterval troubled = Some 15000"
proof -
  let ?s1 = "scanForOpportunities failing_tick started"
  let ?s2 = "scanForOpportunities failing_tick ?s1"
  have 1: "isRunning ?s1" "currentConfig ?s1 = Some demoConfig" "errorCount ?s1 = 1"
      "engine.scanInterval ?s1 = Some 15000"
    using throwing_tick_below [OF started_facts(1,2) failing_tick_throws]
    by (simp_all add: started_facts MAX_ERRORS_def)
  have 2: "isRunning ?s2" "currentConfig ?s2 = Some demoConfig" "errorCount ?s2 = 2"
      "engine.scanInterval ?s2 = Some 15000"
    using throwing_tick_below [OF 1(1,2) failing_tick_throws]
    by (simp_all add: 1 MAX_ERRORS_def)
  have t: "troubled = scanForOpportunities failing_tick ?s2"
    by (simp add: troubled_def)
  show "isRunning troubled" "currentConfig troubled = Some demoConfig" "errorCount troubled = 3"
    "engine.scanInterval troubled = Some 15000"
    using throwing_tick_below [OF 2(1,2) failing_tick_throws]
    by (simp_all add: 2 t MAX_ERRORS_def)
qed

lemma strained_facts:
  "isRunning strained" "currentConfig strained = Some demoConfig" "errorCount strained = 4"
  "engine.scanInterval strained = Some 15000"
  using throwing_tick_below [OF troubled_facts(1,2) failing_tick_throws]
  by (simp_all add: troubled_facts strained_def MAX_ERRORS_def)

theorem scan_error_budget_witness:
  "isRunning strained \<and> currentConfig strained = Some demoConfig
   \<and> evaluation failing_tick = Throws ''request timed out''
   \<and> errorCount (scanForOpportunities failing_tick strained) = 5
   \<and> \<not> isRunning (scanForOpportunities failing_tick strained)
   \<and> engine.scanInterval (scanForOpportunities failing_tick strained) = None
   \<and> new_calls strained (scanForOpportunities failing_tick strained) =
        [SimulateArbitrageOpportunity ''So11111111111111111111111111111111111111112''
           ''EPjFWdd5AufqSSqeM2qN1xzybapC8G4wEGGkZwyTDt1v'' (Finite (3602879701896397 / 36028797018963968)),
         Broadcast (BotStatusMessage False ''demo-config'' (clock strained) None 1700000001000),
         Broadcast (BotStatusMessage False ''demo-config'' (clock strained)
                      (Some ''Too many errors occurred'') 1700000001000)]"
  using scan_error_budget [OF strained_facts(1,2) failing_tick_throws]
  by (simp add: strained_facts MAX_ERRORS_def demoConfig_def parseFloat_tenth
        failing_tick_def winning_tick_def del: parseFloat.simps)

lemma run_append: "run k (xs @ ys) s = run k ys (run k xs s)"
  by (induction xs arbitrary: s) simp_all

lemma throwing_run_below:
  assumes "\<forall>e \<in> set envs. \<exists>m. evaluation e = Throws m"
    and "isRunning s" and "currentConfig s = Some c"
    and "errorCount s + length envs < MAX_ERRORS"
  shows "isRunning (run k (map Tick envs) s)
       \<and> currentConfig (run k (map Tick envs) s) = Some c
       \<and> errorCount (run k (map Tick envs) s) = errorCount s + length envs"
  using assms
proof (induction envs arbitrary: s)
  case Nil
  then show ?case by simp
next
  case (Cons e envs)
  from Cons.prems(1) obtain m where m: "evaluation e = Throws m" by auto
  have lt: "errorCount s + 1 < MAX_ERRORS" using Cons.prems(4) by simp
  note step = throwing_tick_below [OF Cons.prems(2,3) m lt]
  have "errorCount (scanForOpportunities e s) + length envs < MAX_ERRORS"
    using Cons.prems(4) step(3) by simp
  from Cons.IH [OF _ step(1) step(2) this] Cons.prems(1) step(3) show ?case
    by simp
qed

text \<open>
  Five failing ticks in a row, from a Running engine with a clear counter, leave it Idle
  with the timer disarmed, and the last event is the status with the error message.
\<close>

lemma five_failures_stop:
  assumes "\<forall>e \<in> set envs. \<exists>m. evaluation e = Throws m" and "length envs = 5"
    and "isRunning s" and "currentConfig s = Some c" and "errorCount s = 0"
  shows "\<not> isRunning (run k (map Tick envs) s)
       \<and> engine.scanInterval (run k (map Tick envs) s) = None
       \<and> errorCount (run k (map Tick envs) s) = 5
       \<and> (\<exists>t t'. last (calls (run k (map Tick envs) s)) =
             Broadcast (BotStatusMessage False (BotConfig.id' c) t
                          (Some ''Too many errors occurred'') t'))
       \<and> (\<forall>n < 5. isRunning (run k (map Tick (take n envs)) s))"
proof -
  from assms(2) obtain xs e where envs: "envs = xs @ [e]" and len: "length xs = 4"
    by (cases envs rule: rev_cases) auto
  have all_xs: "\<forall>e \<in> set xs. \<exists>m. evaluation e = Throws m" using assms(1) envs by simp
  from assms(1) envs obtain m where m: "evaluation e = Throws m" by auto
  let ?s4 = "run k (map Tick xs) s"
  have four: "isRunning ?s4" "currentConfig ?s4 = Some c" "errorCount ?s4 = 4"
    using throwing_run_below [OF all_xs assms(3,4), of k] len assms(5)
    by (simp_all add: MAX_ERRORS_def)
  have fin: "run k (map Tick envs) s = scan_catch ((scan_begin ?s4)\<lparr>clock := evaluatedAt e\<rparr>)"
    by (simp add: envs run_append scan_throws [OF four(1,2) m])
  let ?b = "(scan_begin ?s4)\<lparr>clock := evaluatedAt e\<rparr>"
  have b: "isRunning ?b" "currentConfig ?b = Some c" "MAX_ERRORS \<le> errorCount ?b + 1"
      "errorCount ?b = 4"
    using four by (simp_all add: scan_begin_running logged_def MAX_ERRORS_def)
  have early: "\<forall>n < 5. isRunning (run k (map Tick (take n envs)) s)"
  proof (intro allI impI)
    fix n :: nat assume n: "n < 5"
    have sub: "\<forall>e \<in> set (take n envs). \<exists>m. evaluation e = Throws m"
      using assms(1) by (meson in_set_takeD)
    have "errorCount s + length (take n envs) < MAX_ERRORS"
      using n assms(2,5) by (simp add: MAX_ERRORS_def)
    from throwing_run_below [OF sub assms(3,4) this]
    show "isRunning (run k (map Tick (take n envs)) s)" by simp
  qed
  show ?thesis
    using early b(4) by (simp add: fin scan_catch_ceiling [OF b(3) b(1) b(2)])
qed

subsection \<open>Ticks in which the evaluator resolves\<close>

lemma scan_no_data:
  assumes "isRunning s" and "currentConfig s = Some c" and "evaluation env = Returns None"
  shows "scanForOpportunities env s = (scan_begin s)\<lparr>clock := evaluatedAt env\<rparr>"
  using assms by (simp add: scanForOpportunities_def scan_settle_def Let_def)

lemma scan_data:
  assumes "isRunning s" and "currentConfig s = Some c"
    and "evaluation env = Returns (Some opp)"
  shows "scanForOpportunities env s =
     (if num_ge (simulation.profitPercentage opp) (parseFloat (profitThreshold c))
      then (executeTrade env (opportunityRow (opportunityId env) opp c (evaluatedAt env))
              (broadcastOpportunity (opportunityRow (opportunityId env) opp c (evaluatedAt env))
                 (createOpportunity (opportunityRow (opportunityId env) opp c (evaluatedAt env))
                    ((scan_begin s)\<lparr>clock := evaluatedAt env\<rparr>))))\<lparr>errorCount := 0\<rparr>
      else (scan_begin s)\<lparr>clock := evaluatedAt env, errorCount := 0\<rparr>)"
  using assms
  by (simp add: scanForOpportunities_def scan_settle_def Let_def recordOpportunity_def
        scan_begin_running logged_def)

lemma quiet_tick_no_data: "evaluation quiet_tick = Returns None"
  by (simp add: quiet_tick_def winning_tick_def)

text \<open>
  C6, as stated, fails: a tick in which the evaluator returns no data returns before the
  reset, so a counter of 3 is still 3 afterwards.
\<close>

theorem no_data_keeps_error_count:
  "isRunning troubled \<and> evaluation quiet_tick = Returns None \<and> errorCount troubled = 3
   \<and> errorCount (scanForOpportunities quiet_tick troubled) = 3
   \<and> errorCount (scanForOpportunities quiet_tick troubled) \<noteq> 0"
  by (simp add: scan_no_data [OF troubled_facts(1,2) quiet_tick_no_data] troubled_facts
        scan_begin_running [OF troubled_facts(1,2)] logged_def quiet_tick_no_data)

text \<open>
  C6, amended. A scan tick of a Running engine in which the evaluator returns data
  completes with the consecutive-error counter at 0, whether the opportunity is traded or
  is below the threshold; a tick in which the evaluator returns no data returns early and
  leaves the counter as it was.
\<close>

theorem scan_counter_reset:
  assumes "isRunning s" and "currentConfig s = Some c"
  shows "(\<forall>opp. evaluation env = Returns (Some opp) \<longrightarrow>
            errorCount (scanForOpportunities env s) = 0)
       \<and> (evaluation env = Returns None \<longrightarrow>
            errorCount (scanForOpportunities env s) = errorCount s)"
proof (intro conjI allI impI)
  fix opp assume "evaluation env = Returns (Some opp)"
  from scan_data [OF assms this] show "errorCount (scanForOpportunities env s) = 0"
    by simp
next
  assume "evaluation env = Returns None"
  from scan_no_data [OF assms this] show "errorCount (scanForOpportunities env s) = errorCount s"
    using assms by (simp add: scan_begin_running logged_def)
qed

lemma winning_tick_data: "evaluation winning_tick = Returns (Some gain07)"
  by (simp add: winning_tick_def)

lemma low_tick_data: "evaluation low_tick = Returns (Some gain02)"
  by (simp add: low_tick_def winning_tick_def)

theorem scan_counter_reset_witness:
  "isRunning troubled \<and> currentConfig troubled = Some demoConfig \<and> errorCount troubled = 3
   \<and> errorCount (scanForOpportunities winning_tick troubled) = 0
   \<and> errorCount (scanForOpportunities low_tick troubled) = 0
   \<and> errorCount (scanForOpportunities quiet_tick troubled) = 3"
  using scan_counter_reset [OF troubled_facts(1,2), of winning_tick]
    scan_counter_reset [OF troubled_facts(1,2), of low_tick]
    scan_counter_reset [OF troubled_facts(1,2), of quiet_tick]
  by (simp add: troubled_facts winning_tick_data low_tick_data quiet_tick_no_data)

text \<open>
  The evaluator of the repository catches every error and returns no data, so a tick
  that runs against it never reaches the \<open>catch\<close> block: the counter does not grow.
\<close>

lemma own_evaluator_never_raises:
  assumes "isRunning s" and "currentConfig s = Some c"
    and "evaluation env = Returns (simulateArbitrageOpportunity http1 http2 mintA mintB amount)"
  shows "errorCount (scanForOpportunities env s) \<le> errorCount s"
proof (cases "simulateArbitrageOpportunity http1 http2 mintA mintB amount")
  case None
  with assms(3) have "evaluation env = Returns None" by simp
  from scan_no_data [OF assms(1,2) this] assms(1,2) show ?thesis
    by (simp add: scan_begin_running logged_def)
next
  case (Some opp)
  with assms(3) have "evaluation env = Returns (Some opp)" by simp
  from scan_data [OF assms(1,2) this] show ?thesis by simp
qed

subsection \<open>The profit threshold\<close>

lemma executeTrade_calls:
  assumes "currentConfig s = Some c"
  shows "\<exists>rest. calls (executeTrade env opp s) =
            calls s @
              [CreateTrade (tradeRecord (tradeId env) c (clock s)),
               Broadcast (TradeMessage (tradeRecord (tradeId env) c (clock s)) (clock s)),
               ExecuteArbitrage (BotConfig.tokenA c) (BotConfig.tokenB c)
                 (parseFloat (maxTradeAmount c)) (mockMode c)] @ rest
          \<and> filter creates_opportunity rest = [] \<and> filter creates_trade rest = []
          \<and> filter invokes_executor rest = []"
proof (cases "execution env")
  case (Throws m)
  show ?thesis by (simp add: executeTrade_thrown [OF assms Throws])
next
  case (Returns r)
  show ?thesis
  proof (cases "success r")
    case True
    show ?thesis by (simp add: executeTrade_success [OF assms Returns True])
  next
    case False
    show ?thesis by (simp add: executeTrade_failure [OF assms Returns False])
  qed
qed

lemma lt_not_ge: "num_lt a b \<Longrightarrow> \<not> num_ge a b"
  by (cases a; cases b) (simp_all add: num_lt_def num_ge_def num_le_def)

lemma executeTrade_tables:
  assumes cfg: "currentConfig s = Some c"
    and stored: "opportunities s (NewArbitrageOpportunity.id' opp) = Some opp"
  shows "(opportunities (executeTrade env opp s) = opportunities s
          \<or> opportunities (executeTrade env opp s) =
              (opportunities s)(NewArbitrageOpportunity.id' opp \<mapsto>
                 opp\<lparr>wasExecuted := True, executedTradeId := Value (tradeId env)\<rparr>))
       \<and> (\<exists>t. trades (executeTrade env opp s) = (trades s)(tradeId env \<mapsto> t)
              \<and> NewTrade.id' t = tradeId env)"
proof (cases "execution env")
  case (Throws m)
  show ?thesis by (force simp add: executeTrade_thrown [OF cfg Throws] errorTrade_def)
next
  case (Returns r)
  show ?thesis
  proof (cases "success r")
    case True
    show ?thesis
      using stored by (force simp add: executeTrade_success [OF cfg Returns True] updatedTrade_def)
  next
    case False
    show ?thesis by (force simp add: executeTrade_failure [OF cfg Returns False] failedTrade_def)
  qed
qed

text \<open>
  C2. In a scan tick of a Running engine in which the evaluator returns data: when the
  profit percentage is strictly below the configured threshold, the tick creates no
  Opportunity record and no Trade record and does not call the executor; when it is at or
  above the threshold, the tick creates one Opportunity record and broadcasts it, then
  creates one pending Trade, broadcasts it and calls the executor once, and what follows
  creates no further record and calls the executor no more; when the tick returns, the
  opportunity table is the old one with the new row stored under the tick's opportunity
  id (as created, or marked executed with the trade id), and the trade table is the old
  one with one row stored under the tick's trade id.
\<close>

theorem scan_threshold_gate:
  assumes run: "isRunning s" and cfg: "currentConfig s = Some c"
    and data: "evaluation env = Returns (Some opp)"
  shows "(num_lt (simulation.profitPercentage opp) (parseFloat (profitThreshold c)) \<longrightarrow>
            opportunities (scanForOpportunities env s) = opportunities s
          \<and> trades (scanForOpportunities env s) = trades s
          \<and> new_calls s (scanForOpportunities env s) =
              [SimulateArbitrageOpportunity (BotConfig.tokenA c) (BotConfig.tokenB c)
                 (parseFloat (maxTradeAmount c))])
       \<and> (num_ge (simulation.profitPercentage opp) (parseFloat (profitThreshold c)) \<longrightarrow>
            (\<exists>rest. new_calls s (scanForOpportunities env s) =
               [SimulateArbitrageOpportunity (BotConfig.tokenA c) (BotConfig.tokenB c)
                  (parseFloat (maxTradeAmount c)),
                CreateOpportunity (opportunityRow (opportunityId env) opp c (evaluatedAt env)),
                Broadcast (OpportunityMessage
                             (opportunityRow (opportunityId env) opp c (evaluatedAt env))
                             (evaluatedAt env)),
                CreateTrade (tradeRecord (tradeId env) c (evaluatedAt env)),
                Broadcast (TradeMessage (tradeRecord (tradeId env) c (evaluatedAt env))
                             (evaluatedAt env)),
                ExecuteArbitrage (BotConfig.tokenA c) (BotConfig.tokenB c)
                  (parseFloat (maxTradeAmount c)) (mockMode c)] @ rest
              \<and> filter creates_opportunity rest = [] \<and> filter creates_trade rest = []
              \<and> filter invokes_executor rest = [])
          \<and> (\<exists>row. opportunities (scanForOpportunities env s) =
                       (opportunities s)(opportunityId env \<mapsto> row)
                 \<and> (row = opportunityRow (opportunityId env) opp c (evaluatedAt env)
                      \<or> row = (opportunityRow (opportunityId env) opp c (evaluatedAt env))
                                 \<lparr>wasExecuted := True, executedTradeId := Value (tradeId env)\<rparr>))
          \<and> (\<exists>t. trades (scanForOpportunities env s) = (trades s)(tradeId env \<mapsto> t)
                 \<and> NewTrade.id' t = tradeId env))"
proof (intro conjI impI)
  assume lt: "num_lt (simulation.profitPercentage opp) (parseFloat (profitThreshold c))"
  have "\<not> num_ge (simulation.profitPercentage opp) (parseFloat (profitThreshold c))"
    using lt by (rule lt_not_ge)
  with scan_data [OF run cfg data]
  have eq: "scanForOpportunities env s = (scan_begin s)\<lparr>clock := evaluatedAt env, errorCount := 0\<rparr>"
    by simp
  show "opportunities (scanForOpportunities env s) = opportunities s"
    and "trades (scanForOpportunities env s) = trades s"
    and "new_calls s (scanForOpportunities env s) =
              [SimulateArbitrageOpportunity (BotConfig.tokenA c) (BotConfig.tokenB c)
                 (parseFloat (maxTradeAmount c))]"
    using run cfg by (simp_all add: eq scan_begin_running logged_def new_calls_def)
next
  assume ge: "num_ge (simulation.profitPercentage opp) (parseFloat (profitThreshold c))"
  let ?row = "opportunityRow (opportunityId env) opp c (evaluatedAt env)"
  let ?b = "(scan_begin s)\<lparr>clock := evaluatedAt env\<rparr>"
  let ?s2 = "broadcastOpportunity ?row (createOpportunity ?row ?b)"
  have s2: "currentConfig ?s2 = Some c" "clock ?s2 = evaluatedAt env"
    "calls ?s2 = calls s @
       [SimulateArbitrageOpportunity (BotConfig.tokenA c) (BotConfig.tokenB c)
          (parseFloat (maxTradeAmount c)),
        CreateOpportunity ?row, Broadcast (OpportunityMessage ?row (evaluatedAt env))]"
    using run cfg
    by (simp_all add: scan_begin_running logged_def broadcastOpportunity_def broadcast_def
          createOpportunity_def)
  from executeTrade_calls [OF s2(1), of env ?row] obtain rest where
    rest: "calls (executeTrade env ?row ?s2) =
            calls ?s2 @
              [CreateTrade (tradeRecord (tradeId env) c (clock ?s2)),
               Broadcast (TradeMessage (tradeRecord (tradeId env) c (clock ?s2)) (clock ?s2)),
               ExecuteArbitrage (BotConfig.tokenA c) (BotConfig.tokenB c)
                 (parseFloat (maxTradeAmount c)) (mockMode c)] @ rest"
    and none: "filter creates_opportunity rest = []" "filter creates_trade rest = []"
      "filter invokes_executor rest = []"
    by blast
  have eq: "scanForOpportunities env s = (executeTrade env ?row ?s2)\<lparr>errorCount := 0\<rparr>"
    using scan_data [OF run cfg data] ge by simp
  have tables: "opportunities ?s2 = (opportunities s)(opportunityId env \<mapsto> ?row)"
    "trades ?s2 = trades s" "NewArbitrageOpportunity.id' ?row = opportunityId env"
    using run cfg
    by (simp_all add: scan_begin_running logged_def broadcastOpportunity_def broadcast_def
          createOpportunity_def opportunityRow_def)
  have "opportunities ?s2 (NewArbitrageOpportunity.id' ?row) = Some ?row"
    by (simp only: tables) simp
  note after = executeTrade_tables [OF s2(1) this, of env]
  from after show "\<exists>row. opportunities (scanForOpportunities env s) =
                       (opportunities s)(opportunityId env \<mapsto> row)
                 \<and> (row = ?row
                      \<or> row = ?row\<lparr>wasExecuted := True, executedTradeId := Value (tradeId env)\<rparr>)"
    by (simp only: eq tables) auto
  from after show "\<exists>t. trades (scanForOpportunities env s) = (trades s)(tradeId env \<mapsto> t)
                 \<and> NewTrade.id' t = tradeId env"
    by (simp only: eq tables) auto
  from eq have "new_calls s (scanForOpportunities env s) =
               [SimulateArbitrageOpportunity (BotConfig.tokenA c) (BotConfig.tokenB c)
                  (parseFloat (maxTradeAmount c)),
                CreateOpportunity ?row,
                Broadcast (OpportunityMessage ?row (evaluatedAt env)),
                CreateTrade (tradeRecord (tradeId env) c (evaluatedAt env)),
                Broadcast (TradeMessage (tradeRecord (tradeId env) c (evaluatedAt env))
                             (evaluatedAt env)),
                ExecuteArbitrage (BotConfig.tokenA c) (BotConfig.tokenB c)
                  (parseFloat (maxTradeAmount c)) (mockMode c)] @ rest"
    using rest s2(2,3) by (simp add: new_calls_def)
  with none show "\<exists>rest. new_calls s (scanForOpportunities env s) =
               [SimulateArbitrageOpportunity (BotConfig.tokenA c) (BotConfig.tokenB c)
                  (parseFloat (maxTradeAmount c)),
                CreateOpportunity ?row,
                Broadcast (OpportunityMessage ?row (evaluatedAt env)),
                CreateTrade (tradeRecord (tradeId env) c (evaluatedAt env)),
                Broadcast (TradeMessage (tradeRecord (tradeId env) c (evaluatedAt env))
                             (evaluatedAt env)),
                ExecuteArbitrage (BotConfig.tokenA c) (BotConfig.tokenB c)
                  (parseFloat (maxTradeAmount c)) (mockMode c)] @ rest
              \<and> filter creates_opportunity rest = [] \<and> filter creates_trade rest = []
              \<and> filter invokes_executor rest = []"
    by blast
qed

lemma started_store: "trades started = (\<lambda>k. None)" "opportunities started = (\<lambda>k. None)"
  by (simp_all add: started_def start_def start_engine_def startScanning_def scan_begin_def
        demoConfig_def initial_def broadcastBotStatus_def broadcast_def logged_def Let_def)

lemma demo_threshold: "parseFloat (profitThreshold demoConfig) = Finite (1 / 2)"
  by (simp add: demoConfig_def parseFloat_half del: parseFloat.simps)

theorem scan_threshold_gate_witness:
  "isRunning started \<and> currentConfig started = Some demoConfig
   \<and> evaluation low_tick = Returns (Some gain02)
   \<and> num_lt (simulation.profitPercentage gain02) (parseFloat (profitThreshold demoConfig))
   \<and> trades (scanForOpportunities low_tick started) = trades started
   \<and> opportunities (scanForOpportunities low_tick started) = opportunities started
   \<and> filter invokes_executor (new_calls started (scanForOpportunities low_tick started)) = []
   \<and> evaluation winning_tick = Returns (Some gain07)
   \<and> num_ge (simulation.profitPercentage gain07) (parseFloat (profitThreshold demoConfig))
   \<and> length (filter creates_opportunity
                (new_calls started (scanForOpportunities winning_tick started))) = 1
   \<and> length (filter creates_trade
                (new_calls started (scanForOpportunities winning_tick started))) = 1
   \<and> length (filter invokes_executor
                (new_calls started (scanForOpportunities winning_tick started))) = 1
   \<and> opportunities started ''opp-1'' = None
   \<and> opportunities (scanForOpportunities winning_tick started) ''opp-1'' \<noteq> None
   \<and> trades started ''trade-1'' = None
   \<and> trades (scanForOpportunities winning_tick started) ''trade-1'' \<noteq> None"
proof -
  have lt: "num_lt (simulation.profitPercentage gain02) (parseFloat (profitThreshold demoConfig))"
    by (simp add: demo_threshold gain02_def num_lt_def)
  have ge: "num_ge (simulation.profitPercentage gain07) (parseFloat (profitThreshold demoConfig))"
    by (simp add: demo_threshold gain07_def num_ge_def num_le_def)
  from scan_threshold_gate [OF started_facts(1,2) low_tick_data] lt
  have low: "trades (scanForOpportunities low_tick started) = trades started"
    "opportunities (scanForOpportunities low_tick started) = opportunities started"
    "filter invokes_executor (new_calls started (scanForOpportunities low_tick started)) = []"
    by simp_all
  from scan_threshold_gate [OF started_facts(1,2) winning_tick_data] ge
  obtain rest where
    "new_calls started (scanForOpportunities winning_tick started) =
       [SimulateArbitrageOpportunity (BotConfig.tokenA demoConfig) (BotConfig.tokenB demoConfig)
          (parseFloat (maxTradeAmount demoConfig)),
        CreateOpportunity (opportunityRow (opportunityId winning_tick) gain07 demoConfig
                             (evaluatedAt winning_tick)),
        Broadcast (OpportunityMessage
                     (opportunityRow (opportunityId winning_tick) gain07 demoConfig
                        (evaluatedAt winning_tick))
                     (evaluatedAt winning_tick)),
        CreateTrade (tradeRecord (tradeId winning_tick) demoConfig (evaluatedAt winning_tick)),
        Broadcast (TradeMessage (tradeRecord (tradeId winning_tick) demoConfig
                                   (evaluatedAt winning_tick))
                     (evaluatedAt winning_tick)),
        ExecuteArbitrage (BotConfig.tokenA demoConfig) (BotConfig.tokenB demoConfig)
          (parseFloat (maxTradeAmount demoConfig)) (mockMode demoConfig)] @ rest"
    and "filter creates_opportunity rest = []" and "filter creates_trade rest = []"
    and "filter invokes_executor rest = []"
    and "\<exists>row. opportunities (scanForOpportunities winning_tick started) =
                 (opportunities started)(opportunityId winning_tick \<mapsto> row)"
    and "\<exists>t. trades (scanForOpportunities winning_tick started) =
               (trades started)(tradeId winning_tick \<mapsto> t)"
    by blast
  then have win:
    "length (filter creates_opportunity
                (new_calls started (scanForOpportunities winning_tick started))) = 1"
    "length (filter creates_trade
                (new_calls started (scanForOpportunities winning_tick started))) = 1"
    "length (filter invokes_executor
                (new_calls started (scanForOpportunities winning_tick started))) = 1"
    "opportunities (scanForOpportunities winning_tick started) ''opp-1'' \<noteq> None"
    "trades (scanForOpportunities winning_tick started) ''trade-1'' \<noteq> None"
    by (auto simp add: winning_tick_def)
  show ?thesis
    using lt ge low win started_facts(1,2) low_tick_data winning_tick_data
    by (simp add: started_store)
qed

subsection \<open>Every trade is settled when the tick returns\<close>

lemma trades_scan_catch: "trades (scan_catch s) = trades s"
  by (simp add: scan_catch_def Let_def stop_def broadcastBotStatus_def broadcast_def logged_def
      split: option.split)

lemma trades_scan_begin: "trades (scan_begin s) = trades s"
  by (simp add: scan_begin_def logged_def split: option.split)

lemma status_settled [simp]:
  "status (updatedTrade p r) = ''completed''"
  "status (failedTrade p r) = ''failed''"
  "status (errorTrade p m) = ''failed''"
  by (simp_all add: updatedTrade_def failedTrade_def errorTrade_def)

lemma executeTrade_all_settled:
  assumes "all_settled s"
  shows "all_settled (executeTrade env opp s)"
proof (cases "currentConfig s")
  case None
  with assms show ?thesis by (simp add: executeTrade_def)
next
  case (Some c)
  show ?thesis
  proof (cases "execution env")
    case (Throws m)
    from assms show ?thesis
      by (simp add: executeTrade_thrown [OF Some Throws] all_settled_def)
  next
    case (Returns r)
    from assms show ?thesis
      by (cases "success r")
         (simp_all add: executeTrade_success [OF Some Returns]
            executeTrade_failure [OF Some Returns] all_settled_def)
  qed
qed

lemma scan_settle_all_settled:
  assumes "all_settled s"
  shows "all_settled (scan_settle env s)"
proof -
  have a: "all_settled (s\<lparr>clock := evaluatedAt env\<rparr>)"
    using assms by (simp add: all_settled_def)
  have c: "all_settled (scan_catch (s\<lparr>clock := evaluatedAt env\<rparr>))"
    using a by (simp add: all_settled_def trades_scan_catch)
  have "\<And>row. all_settled
              (broadcastOpportunity row (createOpportunity row (s\<lparr>clock := evaluatedAt env\<rparr>)))"
    using assms
    by (simp add: all_settled_def broadcastOpportunity_def broadcast_def createOpportunity_def
          logged_def)
  then have e: "\<And>row. all_settled (executeTrade env row
              (broadcastOpportunity row (createOpportunity row (s\<lparr>clock := evaluatedAt env\<rparr>))))"
    by (rule executeTrade_all_settled)
  show ?thesis
    using a c e
    by (simp add: scan_settle_def Let_def recordOpportunity_def all_settled_def
        split: outcome.split option.split)
qed

lemma scan_all_settled:
  assumes "all_settled s"
  shows "all_settled (scanForOpportunities env s)"
proof -
  have "all_settled (scan_begin s)"
    using assms by (simp add: all_settled_def trades_scan_begin)
  from scan_settle_all_settled [OF this] assms show ?thesis
    by (simp add: scanForOpportunities_def)
qed

text \<open>
  C4. The Trade record that the trade-execution procedure creates is pending, with
  amountOut \<open>0\<close> and profit \<open>0\<close>; before the procedure returns it issues one update
  of that record, to completed or failed, and the stored record is completed after an
  executor success and failed after an executor failure result or an exception of the
  executor call. A tick that starts with no pending Trade in the store returns with no
  pending Trade in the store.
\<close>

theorem trade_settles_within_tick:
  "(currentConfig s = Some c \<longrightarrow>
      (\<exists>rest. new_calls s (executeTrade env opp s) =
                 CreateTrade (tradeRecord (tradeId env) c (clock s)) # rest)
    \<and> status (tradeRecord (tradeId env) c (clock s)) = ''pending''
    \<and> amountOut (tradeRecord (tradeId env) c (clock s)) = Text ''0''
    \<and> NewTrade.profit (tradeRecord (tradeId env) c (clock s)) = Text ''0''
    \<and> (\<forall>r. execution env = Returns r \<and> success r \<longrightarrow>
          (\<exists>t. trades (executeTrade env opp s) (tradeId env) = Some t \<and> status t = ''completed''))
    \<and> (\<forall>r. execution env = Returns r \<and> \<not> success r \<longrightarrow>
          (\<exists>t. trades (executeTrade env opp s) (tradeId env) = Some t \<and> status t = ''failed''))
    \<and> (\<forall>m. execution env = Throws m \<longrightarrow>
          (\<exists>t. trades (executeTrade env opp s) (tradeId env) = Some t \<and> status t = ''failed''))
    \<and> (\<exists>t. trades (executeTrade env opp s) (tradeId env) = Some t
            \<and> (status t = ''completed'' \<or> status t = ''failed'')
            \<and> filter updates_trade (new_calls s (executeTrade env opp s)) =
                  [UpdateTrade (tradeId env) t]))
   \<and> (all_settled s \<longrightarrow> all_settled (scanForOpportunities env s))"
proof (intro conjI impI)
  assume cfg: "currentConfig s = Some c"
  show "\<exists>rest. new_calls s (executeTrade env opp s) =
                 CreateTrade (tradeRecord (tradeId env) c (clock s)) # rest"
    using executeTrade_calls [OF cfg, of env opp] by (auto simp: new_calls_def)
  show "status (tradeRecord (tradeId env) c (clock s)) = ''pending''"
    and "amountOut (tradeRecord (tradeId env) c (clock s)) = Text ''0''"
    and "NewTrade.profit (tradeRecord (tradeId env) c (clock s)) = Text ''0''"
    by (simp_all add: tradeRecord_def)
  show ok: "\<forall>r. execution env = Returns r \<and> success r \<longrightarrow>
          (\<exists>t. trades (executeTrade env opp s) (tradeId env) = Some t \<and> status t = ''completed'')"
    by (simp add: executeTrade_success [OF cfg])
  show ko: "\<forall>r. execution env = Returns r \<and> \<not> success r \<longrightarrow>
          (\<exists>t. trades (executeTrade env opp s) (tradeId env) = Some t \<and> status t = ''failed'')"
    by (simp add: executeTrade_failure [OF cfg])
  show ex: "\<forall>m. execution env = Throws m \<longrightarrow>
          (\<exists>t. trades (executeTrade env opp s) (tradeId env) = Some t \<and> status t = ''failed'')"
    by (simp add: executeTrade_thrown [OF cfg])
  show "\<exists>t. trades (executeTrade env opp s) (tradeId env) = Some t
            \<and> (status t = ''completed'' \<or> status t = ''failed'')
            \<and> filter updates_trade (new_calls s (executeTrade env opp s)) =
                  [UpdateTrade (tradeId env) t]"
  proof (cases "execution env")
    case (Throws m)
    show ?thesis by (simp add: executeTrade_thrown [OF cfg Throws] new_calls_def)
  next
    case (Returns r)
    show ?thesis
      by (cases "success r")
         (simp_all add: executeTrade_success [OF cfg Returns]
            executeTrade_failure [OF cfg Returns] new_calls_def)
  qed
next
  assume "all_settled s"
  then show "all_settled (scanForOpportunities env s)" by (rule scan_all_settled)
qed

lemma listed_facts:
  "currentConfig listed = Some demoConfig" "clock listed = 1700000001000"
  "opportunities listed (NewArbitrageOpportunity.id' demo_row) = Some demo_row"
  "\<not> wasExecuted demo_row" "executedTradeId demo_row = Absent"
  "NewArbitrageOpportunity.id' demo_row = ''opp-1''"
  by (simp_all add: listed_def createOpportunity_def logged_def started_facts demo_row_def
        opportunityRow_def)

lemma tick_executions:
  "execution winning_tick = Returns mock_success" "success mock_success"
  "execution losing_tick = Returns (failure ''Failed to simulate trade'')"
  "\<not> success (failure ''Failed to simulate trade'')"
  "execution crashing_tick = Throws ''socket hang up''"
  "tradeId winning_tick = ''trade-1''" "tradeId losing_tick = ''trade-1''"
  "tradeId crashing_tick = ''trade-1''"
  by (simp_all add: winning_tick_def losing_tick_def crashing_tick_def mock_success_def
        failure_def)

theorem trade_settles_within_tick_witness:
  "currentConfig listed = Some demoConfig \<and> all_settled started
   \<and> (\<exists>t. trades (executeTrade winning_tick demo_row listed) ''trade-1'' = Some t
          \<and> status t = ''completed'')
   \<and> (\<exists>t. trades (executeTrade losing_tick demo_row listed) ''trade-1'' = Some t
          \<and> status t = ''failed'')
   \<and> (\<exists>t. trades (executeTrade crashing_tick demo_row listed) ''trade-1'' = Some t
          \<and> status t = ''failed'')
   \<and> all_settled (scanForOpportunities winning_tick started)"
proof -
  have s: "all_settled started"
    by (simp add: all_settled_def started_store)
  show ?thesis
    using trade_settles_within_tick [of listed demoConfig winning_tick demo_row]
      trade_settles_within_tick [of listed demoConfig losing_tick demo_row]
      trade_settles_within_tick [of listed demoConfig crashing_tick demo_row]
      trade_settles_within_tick [of started demoConfig winning_tick demo_row]
    by (simp add: listed_facts(1) tick_executions s)
qed

subsection \<open>The execution link of an opportunity\<close>

text \<open>
  C5. For an Opportunity record that is stored, not yet executed, and handed to the
  trade-execution procedure: afterwards its \<open>wasExecuted\<close> flag is true if and only if
  the Trade of this run is completed; when it is true the trade id is linked, and both
  were written by one update call; when it is false (executor failure or exception) the
  record is unchanged, with no trade id, and no update call was made.
\<close>

theorem opportunity_executed_iff_completed:
  assumes cfg: "currentConfig s = Some c"
    and stored: "opportunities s (NewArbitrageOpportunity.id' opp) = Some opp"
    and fresh: "\<not> wasExecuted opp" "executedTradeId opp = Absent"
  shows "\<exists>row t. opportunities (executeTrade env opp s) (NewArbitrageOpportunity.id' opp) = Some row
           \<and> trades (executeTrade env opp s) (tradeId env) = Some t
           \<and> (wasExecuted row \<longleftrightarrow> status t = ''completed'')
           \<and> (wasExecuted row \<longrightarrow>
                 executedTradeId row = Value (tradeId env)
               \<and> filter updates_opportunity (new_calls s (executeTrade env opp s)) =
                   [UpdateOpportunity (NewArbitrageOpportunity.id' opp)
                      \<lparr>set_wasExecuted = Value True, set_executedTradeId = Value (tradeId env)\<rparr>])
           \<and> (\<not> wasExecuted row \<longrightarrow>
                 row = opp \<and> executedTradeId row = Absent \<and> status t = ''failed''
               \<and> filter updates_opportunity (new_calls s (executeTrade env opp s)) = [])"
proof (cases "execution env")
  case (Throws m)
  show ?thesis
    using stored fresh by (simp add: executeTrade_thrown [OF cfg Throws] new_calls_def)
next
  case (Returns r)
  show ?thesis
  proof (cases "success r")
    case True
    show ?thesis
      using stored fresh by (simp add: executeTrade_success [OF cfg Returns True] new_calls_def)
  next
    case False
    show ?thesis
      using stored fresh by (simp add: executeTrade_failure [OF cfg Returns False] new_calls_def)
  qed
qed

theorem opportunity_executed_iff_completed_witness:
  "(\<exists>row t. opportunities (executeTrade winning_tick demo_row listed) ''opp-1'' = Some row
        \<and> trades (executeTrade winning_tick demo_row listed) ''trade-1'' = Some t
        \<and> wasExecuted row \<and> status t = ''completed''
        \<and> executedTradeId row = Value ''trade-1'')
   \<and> (\<exists>row t. opportunities (executeTrade losing_tick demo_row listed) ''opp-1'' = Some row
        \<and> trades (executeTrade losing_tick demo_row listed) ''trade-1'' = Some t
        \<and> \<not> wasExecuted row \<and> status t = ''failed'' \<and> executedTradeId row = Absent)
   \<and> (\<exists>row t. opportunities (executeTrade crashing_tick demo_row listed) ''opp-1'' = Some row
        \<and> trades (executeTrade crashing_tick demo_row listed) ''trade-1'' = Some t
        \<and> \<not> wasExecuted row \<and> status t = ''failed'' \<and> executedTradeId row = Absent)"
proof -
  note w = opportunity_executed_iff_completed [OF listed_facts(1,3,4,5)]
  from w [of winning_tick] obtain row t where
    a: "opportunities (executeTrade winning_tick demo_row listed) ''opp-1'' = Some row"
       "trades (executeTrade winning_tick demo_row listed) ''trade-1'' = Some t"
       "wasExecuted row \<longleftrightarrow> status t = ''completed''"
       "wasExecuted row \<longrightarrow> executedTradeId row = Value ''trade-1''"
    by (auto simp: listed_facts(6) tick_executions)
  from executeTrade_success [OF listed_facts(1) tick_executions(1,2), of demo_row]
  have "status t = ''completed''" using a(2) by (auto simp: tick_executions)
  with a have 1: "\<exists>row t. opportunities (executeTrade winning_tick demo_row listed) ''opp-1'' = Some row
        \<and> trades (executeTrade winning_tick demo_row listed) ''trade-1'' = Some t
        \<and> wasExecuted row \<and> status t = ''completed''
        \<and> executedTradeId row = Value ''trade-1''"
    by blast
  from w [of losing_tick] obtain row2 t2 where
    b: "opportunities (executeTrade losing_tick demo_row listed) ''opp-1'' = Some row2"
       "trades (executeTrade losing_tick demo_row listed) ''trade-1'' = Some t2"
       "wasExecuted row2 \<longleftrightarrow> status t2 = ''completed''"
       "\<not> wasExecuted row2 \<longrightarrow> executedTradeId row2 = Absent \<and> status t2 = ''failed''"
    by (auto simp: listed_facts(6) tick_executions)
  from executeTrade_failure [OF listed_facts(1) tick_executions(3,4), of demo_row]
  have "status t2 = ''failed''" using b(2) by (auto simp: tick_executions)
  with b have 2: "\<exists>row t. opportunities (executeTrade losing_tick demo_row listed) ''opp-1'' = Some row
        \<and> trades (executeTrade losing_tick demo_row listed) ''trade-1'' = Some t
        \<and> \<not> wasExecuted row \<and> status t = ''failed'' \<and> executedTradeId row = Absent"
    by auto
  from w [of crashing_tick] obtain row3 t3 where
    c: "opportunities (executeTrade crashing_tick demo_row listed) ''opp-1'' = Some row3"
       "trades (executeTrade crashing_tick demo_row listed) ''trade-1'' = Some t3"
       "wasExecuted row3 \<longleftrightarrow> status t3 = ''completed''"
       "\<not> wasExecuted row3 \<longrightarrow> executedTradeId row3 = Absent \<and> status t3 = ''failed''"
    by (auto simp: listed_facts(6) tick_executions)
  from executeTrade_thrown [OF listed_facts(1) tick_executions(5), of demo_row]
  have "status t3 = ''failed''" using c(2) by (auto simp: tick_executions)
  with c have 3: "\<exists>row t. opportunities (executeTrade crashing_tick demo_row listed) ''opp-1'' = Some row
        \<and> trades (executeTrade crashing_tick demo_row listed) ''trade-1'' = Some t
        \<and> \<not> wasExecuted row \<and> status t = ''failed'' \<and> executedTradeId row = Absent"
    by auto
  from 1 2 3 show ?thesis by blast
qed

subsection \<open>The update of a failed trade\<close>

text \<open>
  C10. When the executor reports failure or throws, there is one update of the Trade
  record, and the stored record afterwards is the pending record with the status set to
  \<open>failed\<close> and the error message set, nothing else: amountIn is still the configured
  amount, amountOut, profit and profitPercentage are still \<open>0\<close>, and there is no
  txSignature.
\<close>

theorem failed_update_frame:
  assumes cfg: "currentConfig s = Some c"
    and failed: "(\<exists>r. execution env = Returns r \<and> \<not> success r) \<or> (\<exists>m. execution env = Throws m)"
  shows "\<exists>u e. filter updates_trade (new_calls s (executeTrade env opp s)) =
                  [UpdateTrade (tradeId env) u]
           \<and> trades (executeTrade env opp s) (tradeId env) = Some u
           \<and> u = (tradeRecord (tradeId env) c (clock s))\<lparr>status := ''failed'', errorMessage := e\<rparr>
           \<and> e \<noteq> Absent
           \<and> amountIn u = maxTradeAmount c
           \<and> amountOut u = Text ''0''
           \<and> NewTrade.profit u = Text ''0''
           \<and> NewTrade.profitPercentage u = Text ''0''
           \<and> NewTrade.txSignature u = Absent"
  using failed
proof (elim disjE exE conjE)
  fix r assume r: "execution env = Returns r" "\<not> success r"
  have "from_optional (error r) \<noteq> Absent" by (cases "error r") simp_all
  then show ?thesis
    by (simp add: executeTrade_failure [OF cfg r] new_calls_def failedTrade_def tradeRecord_def)
next
  fix m assume m: "execution env = Throws m"
  show ?thesis
    by (simp add: executeTrade_thrown [OF cfg m] new_calls_def errorTrade_def tradeRecord_def)
qed

theorem failed_update_frame_witness:
  "currentConfig listed = Some demoConfig
   \<and> execution losing_tick = Returns (failure ''Failed to simulate trade'')
   \<and> \<not> success (failure ''Failed to simulate trade'')
   \<and> trades (executeTrade losing_tick demo_row listed) ''trade-1'' =
        Some ((tradeRecord ''trade-1'' demoConfig 1700000001000)
                \<lparr>status := ''failed'', errorMessage := Value ''Failed to simulate trade''\<rparr>)
   \<and> execution crashing_tick = Throws ''socket hang up''
   \<and> trades (executeTrade crashing_tick demo_row listed) ''trade-1'' =
        Some ((tradeRecord ''trade-1'' demoConfig 1700000001000)
                \<lparr>status := ''failed'', errorMessage := Value ''socket hang up''\<rparr>)"
proof -
  from failed_update_frame [OF listed_facts(1), of losing_tick demo_row]
  obtain u e where
    a: "filter updates_trade (new_calls listed (executeTrade losing_tick demo_row listed)) =
          [UpdateTrade ''trade-1'' u]"
       "trades (executeTrade losing_tick demo_row listed) ''trade-1'' = Some u"
       "u = (tradeRecord ''trade-1'' demoConfig 1700000001000)\<lparr>status := ''failed'', errorMessage := e\<rparr>"
    by (auto simp: tick_executions listed_facts(2))
  have "trades (executeTrade losing_tick demo_row listed) ''trade-1'' =
          Some (failedTrade (tradeRecord ''trade-1'' demoConfig 1700000001000)
                  (failure ''Failed to simulate trade''))"
    by (simp add: executeTrade_failure [OF listed_facts(1) tick_executions(3,4)]
          tick_executions listed_facts(2))
  with a have 1: "trades (executeTrade losing_tick demo_row listed) ''trade-1'' =
        Some ((tradeRecord ''trade-1'' demoConfig 1700000001000)
                \<lparr>status := ''failed'', errorMessage := Value ''Failed to simulate trade''\<rparr>)"
    by (simp add: failedTrade_def failure_def)
  from failed_update_frame [OF listed_facts(1), of crashing_tick demo_row]
  obtain u' e' where
    b: "trades (executeTrade crashing_tick demo_row listed) ''trade-1'' = Some u'"
       "u' = (tradeRecord ''trade-1'' demoConfig 1700000001000)\<lparr>status := ''failed'', errorMessage := e'\<rparr>"
    by (auto simp: tick_executions listed_facts(2))
  have "trades (executeTrade crashing_tick demo_row listed) ''trade-1'' =
          Some (errorTrade (tradeRecord ''trade-1'' demoConfig 1700000001000) ''socket hang up'')"
    by (simp add: executeTrade_thrown [OF listed_facts(1) tick_executions(5)]
          tick_executions listed_facts(2))
  with b have 2: "trades (executeTrade crashing_tick demo_row listed) ''trade-1'' =
        Some ((tradeRecord ''trade-1'' demoConfig 1700000001000)
                \<lparr>status := ''failed'', errorMessage := Value ''socket hang up''\<rparr>)"
    by (simp add: errorTrade_def)
  from 1 2 show ?thesis
    by (simp add: listed_facts(1) tick_executions)
qed

subsection \<open>The configuration and the running flag\<close>

lemma executeTrade_engine:
  "isRunning (executeTrade env opp s) = isRunning s"
  "currentConfig (executeTrade env opp s) = currentConfig s"
proof -
  show "isRunning (executeTrade env opp s) = isRunning s"
  proof (cases "currentConfig s")
    case None
    then show ?thesis by (simp add: executeTrade_def)
  next
    case (Some c)
    show ?thesis
    proof (cases "execution env")
      case (Throws m)
      show ?thesis by (simp add: executeTrade_thrown [OF Some Throws])
    next
      case (Returns r)
      show ?thesis
        by (cases "success r")
           (simp_all add: executeTrade_success [OF Some Returns]
              executeTrade_failure [OF Some Returns])
    qed
  qed
  show "currentConfig (executeTrade env opp s) = currentConfig s"
  proof (cases "currentConfig s")
    case None
    then show ?thesis by (simp add: executeTrade_def)
  next
    case (Some c)
    show ?thesis
    proof (cases "execution env")
      case (Throws m)
      show ?thesis by (simp add: executeTrade_thrown [OF Some Throws])
    next
      case (Returns r)
      show ?thesis
        by (cases "success r")
           (simp_all add: executeTrade_success [OF Some Returns]
              executeTrade_failure [OF Some Returns])
    qed
  qed
qed

lemma scan_catch_engine:
  "currentConfig (scan_catch s) = currentConfig s"
  "isRunning (scan_catch s) \<Longrightarrow> isRunning s"
  by (simp_all add: scan_catch_def Let_def stop_def broadcastBotStatus_def broadcast_def
        logged_def split: option.split if_split_asm)

lemma scan_settle_engine:
  "currentConfig (scan_settle env s) = currentConfig s"
  "isRunning (scan_settle env s) \<Longrightarrow> isRunning s"
proof -
  show "currentConfig (scan_settle env s) = currentConfig s"
    by (simp add: scan_settle_def Let_def scan_catch_engine executeTrade_engine
          recordOpportunity_def broadcastOpportunity_def broadcast_def createOpportunity_def
          logged_def
        split: outcome.split option.split)
  assume "isRunning (scan_settle env s)"
  then show "isRunning s"
    using scan_catch_engine(2) [of "s\<lparr>clock := evaluatedAt env\<rparr>"]
    by (simp add: scan_settle_def Let_def executeTrade_engine
          recordOpportunity_def broadcastOpportunity_def broadcast_def createOpportunity_def
          logged_def
        split: outcome.split_asm option.split_asm if_split_asm)
qed

lemma scan_begin_engine:
  "currentConfig (scan_begin s) = currentConfig s" "isRunning (scan_begin s) = isRunning s"
  by (simp_all add: scan_begin_def logged_def split: option.split)

lemma stop_engine:
  "currentConfig (stop s) = currentConfig s" "\<not> isRunning (stop s)"
  by (simp_all add: stop_def Let_def broadcastBotStatus_def broadcast_def logged_def
      split: option.split)

lemma start_engine_config:
  "currentConfig (snd (start_engine s)) = currentConfig s"
  by (simp add: start_engine_def Let_def startScanning_def scan_begin_engine
        broadcastBotStatus_def broadcast_def logged_def split: option.split)

lemma start_config:
  "\<not> isRunning s \<Longrightarrow> currentConfig (snd (start k c s)) = Some c"
  by (simp add: start_def Let_def start_engine_config setWallet_def
        broadcastBotStatus_def broadcast_def logged_def
      split: option.split prod.split bool.split)

lemma perform_invariant:
  assumes "isRunning s \<longrightarrow> currentConfig s \<noteq> None"
  shows "isRunning (perform k x s) \<longrightarrow> currentConfig (perform k x s) \<noteq> None"
proof (cases x)
  case (Start c)
  show ?thesis
  proof (cases "isRunning s")
    case True
    with assms Start show ?thesis by (simp add: start_def)
  next
    case False
    with Start show ?thesis by (simp add: start_config)
  qed
next
  case Stop
  then show ?thesis by (simp add: stop_engine)
next
  case (Tick env)
  with assms show ?thesis
    using scan_settle_engine [of env "scan_begin s"]
    by (auto simp: scanForOpportunities_def scan_begin_engine)
next
  case (Settle env)
  with assms show ?thesis
    using scan_settle_engine [of env s] by auto
next
  case (Elapse t)
  with assms show ?thesis by simp
qed

lemma run_invariant:
  assumes "isRunning s \<longrightarrow> currentConfig s \<noteq> None"
  shows "isRunning (run k xs s) \<longrightarrow> currentConfig (run k xs s) \<noteq> None"
  using assms
proof (induction xs arbitrary: s)
  case Nil
  then show ?case by simp
next
  case (Cons x xs)
  from Cons.IH [OF perform_invariant [OF Cons.prems]] show ?case by simp
qed

text \<open>
  C9, as stated, fails: after Stop, and after a Start that fails on the wallet, the running
  flag is false and the accessor still reports a configuration.
\<close>

theorem config_outlives_running:
  "running started \<and> \<not> running (stop started) \<and> config (stop started) = Some demoConfig
   \<and> \<not> fst (start no_keypair badKeyConfig initial)
   \<and> \<not> running (snd (start no_keypair badKeyConfig initial))
   \<and> config (snd (start no_keypair badKeyConfig initial)) = Some badKeyConfig"
  by (simp add: running_def config_def stop_engine started_facts start_def Let_def
        setWallet_def no_keypair_def badKeyConfig_def initial_def broadcastBotStatus_def
        broadcast_def logged_def)

lemma tick_config: "currentConfig (scanForOpportunities env s) = currentConfig s"
  by (simp add: scanForOpportunities_def scan_settle_engine scan_begin_engine)

lemma start_running: "isRunning s \<Longrightarrow> start k c s = (False, s)"
  by (simp add: start_def)

lemma perform_config:
  "currentConfig (perform k x s) =
     (case x of Start c \<Rightarrow> if isRunning s then currentConfig s else Some c
              | _ \<Rightarrow> currentConfig s)"
  by (cases x)
     (simp_all add: start_running start_config stop_engine tick_config scan_settle_engine)

lemma run_config:
  "currentConfig (run k xs s) =
     (if idle_starts k xs s = [] then currentConfig s else Some (last (idle_starts k xs s)))"
proof (induction xs arbitrary: s)
  case Nil
  show ?case by simp
next
  case (Cons x xs)
  show ?case
  proof (cases x)
    case (Start c)
    show ?thesis
      using Cons.IH [of "perform k (Start c) s"] perform_config [of k "Start c" s]
      by (simp add: Start del: perform.simps)
  next
    case Stop
    show ?thesis
      using Cons.IH [of "perform k Stop s"] perform_config [of k Stop s]
      by (simp add: Stop del: perform.simps)
  next
    case (Tick env)
    show ?thesis
      using Cons.IH [of "perform k (Tick env) s"] perform_config [of k "Tick env" s]
      by (simp add: Tick del: perform.simps)
  next
    case (Settle env)
    show ?thesis
      using Cons.IH [of "perform k (Settle env) s"] perform_config [of k "Settle env" s]
      by (simp add: Settle del: perform.simps)
  next
    case (Elapse t)
    show ?thesis
      using Cons.IH [of "perform k (Elapse t) s"] perform_config [of k "Elapse t" s]
      by (simp add: Elapse del: perform.simps)
  qed
qed

text \<open>
  C9, amended. The configuration is absent initially and present whenever the engine is
  Running. Stop clears the running flag and leaves the configuration in place; a scan
  tick, the one that stops the engine at the error ceiling included, leaves it in place; a
  Start on a Running engine leaves it in place; a Start on an Idle engine stores the
  configuration it is given whether it succeeds or fails. So after every run from the
  initial state the accessor reports the configuration of the latest Start that was issued
  while the engine was Idle, and reports it absent only when there was no such Start.
\<close>

theorem config_present_while_running:
  "config initial = None \<and> \<not> running initial
   \<and> (running (run k xs initial) \<longrightarrow> config (run k xs initial) \<noteq> None)
   \<and> config (stop s) = config s \<and> \<not> running (stop s)
   \<and> config (scanForOpportunities env s) = config s
   \<and> (running s \<longrightarrow> config (snd (start k c s)) = config s)
   \<and> (\<not> running s \<longrightarrow> config (snd (start k c s)) = Some c)
   \<and> config (run k xs initial) =
        (if idle_starts k xs initial = [] then None
         else Some (last (idle_starts k xs initial)))"
proof -
  have "isRunning initial \<longrightarrow> currentConfig initial \<noteq> None"
    by (simp add: initial_def)
  from run_invariant [OF this, of k xs] run_config [of k xs initial] show ?thesis
    by (simp add: running_def config_def stop_engine start_config start_running tick_config
          initial_def)
qed

lemma stopped_facts:
  "\<not> isRunning (stop started)" "currentConfig (stop started) = Some demoConfig"
  by (simp_all add: stop_engine started_facts)

lemma worn_out: "\<not> isRunning (scanForOpportunities failing_tick strained)"
proof -
  let ?b = "(scan_begin strained)\<lparr>clock := evaluatedAt failing_tick\<rparr>"
  have b: "MAX_ERRORS \<le> errorCount ?b + 1" "isRunning ?b" "currentConfig ?b = Some demoConfig"
    using strained_facts
    by (simp_all add: scan_begin_running [OF strained_facts(1,2)] logged_def MAX_ERRORS_def)
  show ?thesis
    by (simp add: scan_throws [OF strained_facts(1,2) failing_tick_throws]
          scan_catch_ceiling [OF b])
qed

lemma start_rejected:
  assumes "\<not> isRunning s" and "privateKey c = Some key" and "key \<noteq> []" and "k key = None"
  shows "\<not> isRunning (snd (start k c s))"
  using assms
  by (simp add: start_def Let_def setWallet_def broadcastBotStatus_def broadcast_def logged_def)

lemma restart_run:
  "run no_keypair [Start demoConfig, Stop, Start badKeyConfig] initial =
     snd (start no_keypair badKeyConfig (stop started))"
  "idle_starts no_keypair [Start demoConfig, Stop, Start badKeyConfig] initial =
     [demoConfig, badKeyConfig]"
proof -
  have a: "perform no_keypair (Start demoConfig) initial = started"
    by (simp add: started_def)
  show "run no_keypair [Start demoConfig, Stop, Start badKeyConfig] initial =
          snd (start no_keypair badKeyConfig (stop started))"
    by (simp add: started_def)
  have "\<not> isRunning initial" by (simp add: initial_def)
  then show "idle_starts no_keypair [Start demoConfig, Stop, Start badKeyConfig] initial =
          [demoConfig, badKeyConfig]"
    using stopped_facts(1) by (simp add: a del: perform.simps) simp
qed

theorem config_present_while_running_witness:
  "running (run no_keypair [Start demoConfig] initial)
   \<and> config (run no_keypair [Start demoConfig] initial) \<noteq> None
   \<and> \<not> running (stop started) \<and> config (stop started) = Some demoConfig
   \<and> running strained \<and> \<not> running (scanForOpportunities failing_tick strained)
   \<and> config (scanForOpportunities failing_tick strained) = Some demoConfig
   \<and> running started \<and> config (snd (start no_keypair badKeyConfig started)) = Some demoConfig
   \<and> \<not> running initial \<and> config (snd (start no_keypair badKeyConfig initial)) = Some badKeyConfig
   \<and> idle_starts no_keypair [Start demoConfig, Stop, Start badKeyConfig] initial
        = [demoConfig, badKeyConfig]
   \<and> \<not> running (run no_keypair [Start demoConfig, Stop, Start badKeyConfig] initial)
   \<and> config (run no_keypair [Start demoConfig, Stop, Start badKeyConfig] initial)
        = Some badKeyConfig"
proof -
  have bad: "privateKey badKeyConfig = Some ''not-a-key''" "''not-a-key'' \<noteq> []"
    "no_keypair ''not-a-key'' = None"
    by (simp_all add: badKeyConfig_def no_keypair_def)
  have idle: "\<not> running (run no_keypair [Start demoConfig, Stop, Start badKeyConfig] initial)"
    unfolding running_def restart_run(1)
    by (rule start_rejected [of "stop started" badKeyConfig "''not-a-key''" no_keypair,
               OF stopped_facts(1) bad])
  have one: "run no_keypair [Start demoConfig] initial = started"
    by (simp only: started_def)
  note a = config_present_while_running
             [where k = no_keypair and xs = "[Start demoConfig]" and s = started
                and c = badKeyConfig and env = failing_tick, unfolded one]
    and b = config_present_while_running
             [where k = no_keypair and xs = "[Start demoConfig, Stop, Start badKeyConfig]"
                and s = initial and c = badKeyConfig and env = failing_tick,
              unfolded restart_run]
    and c = config_present_while_running
             [where k = no_keypair and xs = "[Start demoConfig]" and s = strained
                and c = badKeyConfig and env = failing_tick, unfolded one]
  show ?thesis
    unfolding one restart_run
    using a b c started_facts(1,2) strained_facts(1,2) worn_out idle [unfolded restart_run]
    by (simp add: running_def config_def del: run.simps idle_starts.simps)
qed

subsection \<open>Prices\<close>

lemma ratios_01:
  "num_div (Finite 15000000) (Finite 100000000) = Finite (5404319552844595 / 36028797018963968)"
  "num_div (Finite 100700000) (Finite 15000000) = Finite (3779270687301741 / 562949953421312)"
  by (simp_all add: arithmetic) (simp_all add: rounding)

lemma simulate_prices:
  assumes "getQuote http1 mintA mintB amount = Some Q1"
    and "getQuote http2 mintB mintA (num_div (parseInt (outAmount Q1)) (Finite 1000000000)) = Some Q2"
  shows "\<exists>r. simulateArbitrageOpportunity http1 http2 mintA mintB amount = Some r
           \<and> simulation.priceA r =
               num_div (parseInt (outAmount Q1)) (num_div (parseInt (inAmount Q1)) (Finite 1000000000))
           \<and> simulation.priceB r =
               num_div (parseInt (outAmount Q2)) (num_div (parseInt (inAmount Q2)) (Finite 1000000000))"
  using assms by (simp add: simulateArbitrageOpportunity_def Let_def)

text \<open>
  C7 at a concrete pair of quotes. The first leg turns 100000000 smallest units into
  15000000, a ratio of 0.15, and the second leg turns 15000000 into 100700000, a ratio of
  6.7133; the quotients below are the doubles nearest to them. The evaluator returns
  150000000 and 6713333333.333334, the ratios multiplied by \<open>10^9\<close>: it divides the
  input amount by \<open>10^9\<close> and leaves the output amount in smallest units.
\<close>

theorem simulate_price_scale:
  "\<exists>r. simulateArbitrageOpportunity leg1_endpoint leg2_endpoint ''SOL'' ''USDC'' (Finite (3602879701896397 / 36028797018963968)) = Some r
       \<and> simulation.priceA r = Finite 150000000
       \<and> num_div (parseInt ''15000000'') (parseInt ''100000000'')
           = Finite (5404319552844595 / 36028797018963968)
       \<and> simulation.priceA r \<noteq> num_div (parseInt ''15000000'') (parseInt ''100000000'')
       \<and> simulation.priceB r = Finite (3519720106666667 / 524288)
       \<and> num_div (parseInt ''100700000'') (parseInt ''15000000'')
           = Finite (3779270687301741 / 562949953421312)
       \<and> simulation.priceB r \<noteq> num_div (parseInt ''100700000'') (parseInt ''15000000'')"
  by (simp add: simulateArbitrageOpportunity_def getQuote_def leg1_endpoint_def leg2_endpoint_def
        Let_def parseInt_15000000 parseInt_100000000 parseInt_100700000 trip_01 ratios_01)

subsection \<open>Mock mode\<close>

lemma mock_result:
  "executeArbitrage world w mintA mintB amount True =
     (case simulateArbitrageOpportunity (quoteAtoB_http world) (quoteBtoA_http world)
             mintA mintB amount of
        None \<Rightarrow> (failure ''Failed to simulate trade'', [])
      | Some sim \<Rightarrow>
          (\<lparr>success = True,
            ExecutionResult.txSignature = Some (''mock_tx_'' @ decimal (now world)),
            ExecutionResult.profit = Some (simulation.profitOpportunity sim), error = None\<rparr>, []))"
  by (simp add: executeArbitrage_def)

text \<open>
  C8. With \<open>mockMode = true\<close> the executor hands no transaction to the chain, and its
  result is the same without a wallet and with any swap endpoint and chain client. It
  succeeds exactly when the fresh evaluation gives data, and then carries the signature
  \<open>mock_tx_\<close> followed by the clock reading; otherwise it reports the failed simulation.
  A Trade executed by the engine against this executor in mock mode ends failed exactly
  when the fresh evaluation gave no data, and otherwise completed with that signature.
\<close>

theorem mock_execution:
  "snd (executeArbitrage world w mintA mintB amount True) = []
   \<and> executeArbitrage world w mintA mintB amount True =
       executeArbitrage (world\<lparr>swapAtoB_http := swap1, swapBtoA_http := swap2,
                               chainAtoB := chain1, chainBtoA := chain2\<rparr>) None mintA mintB amount True
   \<and> (success (fst (executeArbitrage world w mintA mintB amount True)) \<longleftrightarrow>
        simulateArbitrageOpportunity (quoteAtoB_http world) (quoteBtoA_http world)
          mintA mintB amount \<noteq> None)
   \<and> (success (fst (executeArbitrage world w mintA mintB amount True)) \<longrightarrow>
        ExecutionResult.txSignature (fst (executeArbitrage world w mintA mintB amount True)) =
          Some (''mock_tx_'' @ decimal (now world)))
   \<and> (\<not> success (fst (executeArbitrage world w mintA mintB amount True)) \<longrightarrow>
        error (fst (executeArbitrage world w mintA mintB amount True)) =
          Some ''Failed to simulate trade'')
   \<and> (currentConfig s = Some c \<and> mockMode c
        \<and> execution env = Returns (fst (executeArbitrage world (wallet s)
                                           (BotConfig.tokenA c) (BotConfig.tokenB c)
                                           (parseFloat (maxTradeAmount c)) (mockMode c))) \<longrightarrow>
        (\<exists>t. trades (executeTrade env opp s) (tradeId env) = Some t
            \<and> (status t = ''failed'' \<longleftrightarrow>
                 simulateArbitrageOpportunity (quoteAtoB_http world) (quoteBtoA_http world)
                   (BotConfig.tokenA c) (BotConfig.tokenB c) (parseFloat (maxTradeAmount c)) = None)
            \<and> (status t = ''completed'' \<longleftrightarrow>
                 simulateArbitrageOpportunity (quoteAtoB_http world) (quoteBtoA_http world)
                   (BotConfig.tokenA c) (BotConfig.tokenB c) (parseFloat (maxTradeAmount c)) \<noteq> None)
            \<and> (status t = ''completed'' \<longrightarrow>
                 NewTrade.txSignature t = Value (''mock_tx_'' @ decimal (now world)))))"
proof (intro conjI impI)
  show "snd (executeArbitrage world w mintA mintB amount True) = []"
    by (cases "simulateArbitrageOpportunity (quoteAtoB_http world) (quoteBtoA_http world)
                 mintA mintB amount")
       (simp_all add: mock_result)
  show "executeArbitrage world w mintA mintB amount True =
       executeArbitrage (world\<lparr>swapAtoB_http := swap1, swapBtoA_http := swap2,
                               chainAtoB := chain1, chainBtoA := chain2\<rparr>) None mintA mintB amount True"
    by (cases "simulateArbitrageOpportunity (quoteAtoB_http world) (quoteBtoA_http world)
                 mintA mintB amount")
       (simp_all add: mock_result)
  show "success (fst (executeArbitrage world w mintA mintB amount True)) \<longleftrightarrow>
        simulateArbitrageOpportunity (quoteAtoB_http world) (quoteBtoA_http world)
          mintA mintB amount \<noteq> None"
    by (cases "simulateArbitrageOpportunity (quoteAtoB_http world) (quoteBtoA_http world)
                 mintA mintB amount")
       (simp_all add: mock_result failure_def)
  show "ExecutionResult.txSignature (fst (executeArbitrage world w mintA mintB amount True)) =
          Some (''mock_tx_'' @ decimal (now world))"
    if "success (fst (executeArbitrage world w mintA mintB amount True))"
    using that
    by (cases "simulateArbitrageOpportunity (quoteAtoB_http world) (quoteBtoA_http world)
                 mintA mintB amount")
       (simp_all add: mock_result failure_def)
  show "error (fst (executeArbitrage world w mintA mintB amount True)) =
          Some ''Failed to simulate trade''"
    if "\<not> success (fst (executeArbitrage world w mintA mintB amount True))"
    using that
    by (cases "simulateArbitrageOpportunity (quoteAtoB_http world) (quoteBtoA_http world)
                 mintA mintB amount")
       (simp_all add: mock_result failure_def)
next
  assume a: "currentConfig s = Some c \<and> mockMode c
        \<and> execution env = Returns (fst (executeArbitrage world (wallet s)
                                           (BotConfig.tokenA c) (BotConfig.tokenB c)
                                           (parseFloat (maxTradeAmount c)) (mockMode c)))"
  let ?sim = "simulateArbitrageOpportunity (quoteAtoB_http world) (quoteBtoA_http world)
                   (BotConfig.tokenA c) (BotConfig.tokenB c) (parseFloat (maxTradeAmount c))"
  let ?r = "fst (executeArbitrage world (wallet s) (BotConfig.tokenA c) (BotConfig.tokenB c)
                   (parseFloat (maxTradeAmount c)) True)"
  from a have cfg: "currentConfig s = Some c" and ex: "execution env = Returns ?r"
    by simp_all
  show "\<exists>t. trades (executeTrade env opp s) (tradeId env) = Some t
            \<and> (status t = ''failed'' \<longleftrightarrow> ?sim = None)
            \<and> (status t = ''completed'' \<longleftrightarrow> ?sim \<noteq> None)
            \<and> (status t = ''completed'' \<longrightarrow>
                 NewTrade.txSignature t = Value (''mock_tx_'' @ decimal (now world)))"
  proof (cases ?sim)
    case None
    then have "\<not> success ?r" by (simp add: mock_result failure_def)
    from executeTrade_failure [OF cfg ex this] None show ?thesis by simp
  next
    case (Some sim)
    then have ok: "success ?r"
      and sig: "ExecutionResult.txSignature ?r = Some (''mock_tx_'' @ decimal (now world))"
      by (simp_all add: mock_result)
    from executeTrade_success [OF cfg ex ok] Some sig show ?thesis
      by (simp add: updatedTrade_def)
  qed
qed

lemma demo_mock_run:
  "fst (executeArbitrage demo_market (wallet listed) (BotConfig.tokenA demoConfig)
          (BotConfig.tokenB demoConfig) (parseFloat (maxTradeAmount demoConfig))
          (mockMode demoConfig)) = mock_success"
  by (simp add: demoConfig_def parseFloat_tenth mock_result demo_market_def
        simulateArbitrageOpportunity_def getQuote_def leg1_endpoint_def leg2_endpoint_def
        Let_def parseInt_15000000 parseInt_100000000 parseInt_100700000 trip_01
        mock_success_def digit_char_def decimal.simps
      del: parseFloat.simps)

lemma demo_simulations:
  "simulateArbitrageOpportunity (quoteAtoB_http demo_market) (quoteBtoA_http demo_market)
     (BotConfig.tokenA demoConfig) (BotConfig.tokenB demoConfig)
     (parseFloat (maxTradeAmount demoConfig)) \<noteq> None"
  "simulateArbitrageOpportunity (quoteAtoB_http closed_market) (quoteBtoA_http closed_market)
     ''SOL'' ''USDC'' (Finite (3602879701896397 / 36028797018963968)) = None"
  by (simp_all add: demo_market_def closed_market_def simulateArbitrageOpportunity_def
        getQuote_def leg1_endpoint_def leg2_endpoint_def Let_def)

theorem mock_execution_witness:
  "currentConfig listed = Some demoConfig \<and> mockMode demoConfig
   \<and> execution winning_tick =
       Returns (fst (executeArbitrage demo_market (wallet listed) (BotConfig.tokenA demoConfig)
                       (BotConfig.tokenB demoConfig) (parseFloat (maxTradeAmount demoConfig))
                       (mockMode demoConfig)))
   \<and> (\<exists>t. trades (executeTrade winning_tick demo_row listed) ''trade-1'' = Some t
          \<and> status t = ''completed''
          \<and> NewTrade.txSignature t = Value ''mock_tx_1700000002000'')
   \<and> \<not> success (fst (executeArbitrage closed_market None ''SOL'' ''USDC'' (Finite (3602879701896397 / 36028797018963968)) True))
   \<and> error (fst (executeArbitrage closed_market None ''SOL'' ''USDC'' (Finite (3602879701896397 / 36028797018963968)) True)) =
        Some ''Failed to simulate trade''
   \<and> snd (executeArbitrage closed_market None ''SOL'' ''USDC'' (Finite (3602879701896397 / 36028797018963968)) True) = []"
proof -
  have h: "currentConfig listed = Some demoConfig \<and> mockMode demoConfig
     \<and> execution winning_tick =
       Returns (fst (executeArbitrage demo_market (wallet listed) (BotConfig.tokenA demoConfig)
                       (BotConfig.tokenB demoConfig) (parseFloat (maxTradeAmount demoConfig))
                       (mockMode demoConfig)))"
    by (simp add: listed_facts(1) demo_mock_run tick_executions del: parseFloat.simps)
      (simp add: demoConfig_def)
  have n: "decimal (now demo_market) = ''1700000002000''"
    by (simp add: demo_market_def digit_char_def decimal.simps)
  from mock_execution [of demo_market None "BotConfig.tokenA demoConfig"
      "BotConfig.tokenB demoConfig" "parseFloat (maxTradeAmount demoConfig)"
      "\<lambda>q k. None" "\<lambda>q k. None" "\<lambda>t k. None" "\<lambda>t k. None" listed demoConfig winning_tick demo_row] h
  have "\<exists>t. trades (executeTrade winning_tick demo_row listed) (tradeId winning_tick) = Some t
          \<and> (status t = ''completed'' \<longleftrightarrow>
               simulateArbitrageOpportunity (quoteAtoB_http demo_market) (quoteBtoA_http demo_market)
                 (BotConfig.tokenA demoConfig) (BotConfig.tokenB demoConfig)
                 (parseFloat (maxTradeAmount demoConfig)) \<noteq> None)
          \<and> (status t = ''completed'' \<longrightarrow>
               NewTrade.txSignature t = Value (''mock_tx_'' @ decimal (now demo_market)))"
    by blast
  then obtain t where t:
    "trades (executeTrade winning_tick demo_row listed) (tradeId winning_tick) = Some t"
    "status t = ''completed'' \<longleftrightarrow>
       simulateArbitrageOpportunity (quoteAtoB_http demo_market) (quoteBtoA_http demo_market)
         (BotConfig.tokenA demoConfig) (BotConfig.tokenB demoConfig)
         (parseFloat (maxTradeAmount demoConfig)) \<noteq> None"
    "status t = ''completed'' \<longrightarrow>
       NewTrade.txSignature t = Value (''mock_tx_'' @ decimal (now demo_market))"
    by blast
  from t(2) demo_simulations(1) have fin: "status t = ''completed''" by blast
  with t(3) have "NewTrade.txSignature t = Value ''mock_tx_1700000002000''"
    by (simp add: n)
  with t(1) fin have 1: "\<exists>t. trades (executeTrade winning_tick demo_row listed) ''trade-1'' = Some t
          \<and> status t = ''completed''
          \<and> NewTrade.txSignature t = Value ''mock_tx_1700000002000''"
    by (simp add: tick_executions(6))
  from mock_execution [of closed_market None "''SOL''" "''USDC''" "Finite (3602879701896397 / 36028797018963968)"
      "\<lambda>q k. None" "\<lambda>q k. None" "\<lambda>t k. None" "\<lambda>t k. None" listed demoConfig winning_tick demo_row]
    demo_simulations(2)
  have 2: "\<not> success (fst (executeArbitrage closed_market None ''SOL'' ''USDC'' (Finite (3602879701896397 / 36028797018963968)) True))
     \<and> error (fst (executeArbitrage closed_market None ''SOL'' ''USDC'' (Finite (3602879701896397 / 36028797018963968)) True)) =
        Some ''Failed to simulate trade''
     \<and> snd (executeArbitrage closed_market None ''SOL'' ''USDC'' (Finite (3602879701896397 / 36028797018963968)) True) = []"
    by blast
  from h 1 2 show ?thesis by blast
qed

end
